theory Spec2Isabelle
  imports Main "HOL-Library.Word" "HOL-Library.Multiset"
begin

unbundle bit_operations_syntax

section \<open>Data model of the rocBLAS handle\<close>

text \<open>
  \<open>size_t\<close> is the 64-bit unsigned integer of the platforms rocBLAS builds for; its
  arithmetic wraps around modulo \<open>2 ^ 64\<close>. A device pointer is its 64-bit address and
  \<open>nullptr\<close> is the address 0.
\<close>

type_synonym size_t = "64 word"
type_synonym ptr = "64 word"
type_synonym rocblas_int = "32 word"

datatype rocblas_status =
    rocblas_status_success
  | rocblas_status_invalid_handle
  | rocblas_status_not_implemented
  | rocblas_status_invalid_pointer
  | rocblas_status_invalid_size
  | rocblas_status_memory_error
  | rocblas_status_internal_error
  | rocblas_status_size_increased
  | rocblas_status_size_unchanged
  | rocblas_status_invalid_value

datatype rocblas_pointer_mode = rocblas_pointer_mode_host | rocblas_pointer_mode_device

text \<open>
  The fields of \<open>struct _rocblas_handle\<close> that the modelled operations read or write.
  The device number, the stream, the events, the atomics mode and the logging streams are
  left out: no modelled function touches them. \<open>check_numerics\<close> is read by
  \<open>rocblas_gbmv_batched_impl\<close>.
\<close>

record rocblas_handle =
  pointer_mode :: rocblas_pointer_mode
  layer_mode :: "32 word"
  check_numerics :: "32 word"
  any_order :: bool
  device_memory_size :: size_t
  device_memory_query_size :: size_t
  device_memory :: ptr
  device_memory_is_rocblas_managed :: bool
  device_memory_in_use :: bool
  device_memory_size_query :: bool
  gsu_workspace_size :: size_t
  gsu_workspace :: ptr

section \<open>Chunk rounding and the size query\<close>

definition MIN_CHUNK_SIZE :: size_t where
  "MIN_CHUNK_SIZE = 64"

text \<open>\<open>return ((size - 1) | (MIN_CHUNK_SIZE - 1)) + 1;\<close>\<close>

definition roundup_device_memory_size :: "size_t \<Rightarrow> size_t" where
  "roundup_device_memory_size sz = ((sz - 1) OR (MIN_CHUNK_SIZE - 1)) + 1"

definition is_device_memory_size_query :: "rocblas_handle \<Rightarrow> bool" where
  "is_device_memory_size_query h = device_memory_size_query h"

text \<open>
  The pack expansion \<open>total += roundup_device_memory_size(size_t(sizes))...\<close>, starting
  from \<open>total = 0\<close>, left to right.
\<close>

fun accumulate_total :: "size_t \<Rightarrow> size_t list \<Rightarrow> size_t" where
  "accumulate_total tot [] = tot"
| "accumulate_total tot (s # sizes) =
     accumulate_total (tot + roundup_device_memory_size s) sizes"

definition set_optimal_device_memory_size ::
  "rocblas_handle \<Rightarrow> size_t list \<Rightarrow> rocblas_status \<times> rocblas_handle" where
  "set_optimal_device_memory_size h sizes =
     (if \<not> device_memory_size_query h then (rocblas_status_internal_error, h)
      else
        let tot = accumulate_total 0 sizes in
        if tot > device_memory_query_size h
        then (rocblas_status_size_increased, h\<lparr>device_memory_query_size := tot\<rparr>)
        else (rocblas_status_size_unchanged, h))"

section \<open>The device memory allocation object\<close>

text \<open>
  \<open>_rocblas_handle::device_allocator\<close> is declared in the handle but defined in another
  translation unit. The allocation code below takes it as a parameter \<open>alloc\<close>: given the
  requested size and the handle it returns the block's address (0 for no block) and the
  handle as the allocator leaves it.
\<close>

type_synonym allocator = "size_t \<Rightarrow> rocblas_handle \<Rightarrow> ptr \<times> rocblas_handle"

text \<open>
  The members \<open>success\<close>, \<open>total\<close> and \<open>pointers\<close> of \<open>_device_malloc<N>\<close>.
  The member \<open>total\<close> is named after its accessor \<open>total_size()\<close>, since \<open>total\<close>
  is a constant of HOL; the \<open>handle\<close> member is the handle state threaded through
  the operations.
\<close>

record device_malloc =
  success :: bool
  total_size :: size_t
  pointers :: "ptr list"

text \<open>
  \<open>size_t old, offsets[] = {(old = total, total += roundup_device_memory_size(sizes), old)...};\<close>
  returns the offsets and the final value of \<open>total\<close>.
\<close>

fun compute_offsets :: "size_t \<Rightarrow> size_t list \<Rightarrow> size_t list \<times> size_t" where
  "compute_offsets tot [] = ([], tot)"
| "compute_offsets tot (s # sizes) =
     (let (offsets, tot') = compute_offsets (tot + roundup_device_memory_size s) sizes
      in (tot # offsets, tot'))"

text \<open>
  \<open>size_t i = 0; return {!sizes ? i++, nullptr : (char*)ptr + offsets[i++]...};\<close>
  The index \<open>i\<close> advances once per size, on either branch.
\<close>

fun form_pointers :: "ptr \<Rightarrow> size_t list \<Rightarrow> nat \<Rightarrow> size_t list \<Rightarrow> ptr list" where
  "form_pointers p offsets i [] = []"
| "form_pointers p offsets i (s # sizes) =
     (if s = 0 then 0 else p + offsets ! i) # form_pointers p offsets (Suc i) sizes"

text \<open>
  A \<open>std::array<void*, N>\<close> initialised from a braced list: the entries not given are
  value-initialised to \<open>nullptr\<close>. The source always has \<open>N = sizeof...(Ss)\<close>.
\<close>

definition array_of :: "nat \<Rightarrow> ptr list \<Rightarrow> ptr list" where
  "array_of N ps = take N ps @ replicate (N - length ps) 0"

definition allocate_pointers ::
  "nat \<Rightarrow> allocator \<Rightarrow> rocblas_handle \<Rightarrow> size_t list \<Rightarrow> device_malloc \<times> rocblas_handle" where
  "allocate_pointers N alloc h sizes =
     (let (offsets, tot) = compute_offsets 0 sizes in
      if tot = 0
      then (\<lparr>success = True, total_size = tot, pointers = array_of N []\<rparr>, h)
      else
        let (p, h') = alloc tot h in
        if p = 0
        then (\<lparr>success = False, total_size = tot, pointers = array_of N []\<rparr>, h')
        else (\<lparr>success = True, total_size = tot,
               pointers = array_of N (form_pointers p offsets 0 sizes)\<rparr>, h'))"

text \<open>\<open>handle->device_malloc(sizes...)\<close> constructs \<open>_device_malloc<sizeof...(Ss)>\<close>.\<close>

definition device_malloc ::
  "allocator \<Rightarrow> rocblas_handle \<Rightarrow> size_t list \<Rightarrow> device_malloc \<times> rocblas_handle" where
  "device_malloc alloc h sizes = allocate_pointers (length sizes) alloc h sizes"

text \<open>\<open>~_device_malloc() { handle->device_memory_in_use = false; }\<close>\<close>

definition device_malloc_dtor :: "rocblas_handle \<Rightarrow> rocblas_handle" where
  "device_malloc_dtor h = h\<lparr>device_memory_in_use := False\<rparr>"

text \<open>
  \<open>_gsu_malloc(handle)\<close>: the base \<open>_device_malloc<>\<close> (\<open>N = 1\<close>) is constructed with
  the single size \<open>handle->device_memory_size\<close>, then the two workspace fields are set;
  \<open>handle->gsu_workspace = *this\<close> converts the object to \<open>pointers[0]\<close>.
\<close>

definition gsu_malloc ::
  "allocator \<Rightarrow> rocblas_handle \<Rightarrow> device_malloc \<times> rocblas_handle" where
  "gsu_malloc alloc h =
     (let (obj, h1) = allocate_pointers 1 alloc h [device_memory_size h];
          h2 = h1\<lparr>gsu_workspace_size := (if success obj then total_size obj else 0)\<rparr>;
          h3 = h2\<lparr>gsu_workspace := pointers obj ! 0\<rparr>
      in (obj, h3))"

text \<open>
  \<open>~_gsu_malloc()\<close> resets the two workspace fields, then the base destructor runs.
\<close>

definition gsu_malloc_dtor :: "rocblas_handle \<Rightarrow> rocblas_handle" where
  "gsu_malloc_dtor h =
     device_malloc_dtor (h\<lparr>gsu_workspace_size := 0, gsu_workspace := 0\<rparr>)"

text \<open>
  Modelled from the spec: \<open>_rocblas_handle::device_allocator\<close>, whose body is not part
  of the sources at hand. A request that fits the block is served from it and sets the
  in-use guard; a larger request fails on a caller-managed block and asks the backend to
  grow a library-managed one (\<open>grow\<close> is the backend's answer, 0 when it cannot); a
  failed request leaves the block untouched.
\<close>

definition device_allocator :: "(size_t \<Rightarrow> ptr) \<Rightarrow> allocator" where
  "device_allocator grow sz h =
     (if sz \<le> device_memory_size h
      then (device_memory h, h\<lparr>device_memory_in_use := True\<rparr>)
      else if \<not> device_memory_is_rocblas_managed h then (0, h)
      else
        let p = grow sz in
        if p = 0 then (0, h)
        else (p, h\<lparr>device_memory_size := sz, device_memory := p,
                    device_memory_in_use := True\<rparr>))"

section \<open>The size-query session\<close>

text \<open>
  Modelled from the spec: \<open>rocblas_start_device_memory_size_query\<close> and
  \<open>rocblas_stop_device_memory_size_query\<close> are friends of the handle whose bodies are
  not part of the sources at hand. Starting a session turns the query flag on and zeroes
  the accumulated requirement; stopping it turns the flag off and returns the recorded
  maximum.
\<close>

definition rocblas_start_device_memory_size_query :: "rocblas_handle \<Rightarrow> rocblas_handle" where
  "rocblas_start_device_memory_size_query h =
     h\<lparr>device_memory_size_query := True, device_memory_query_size := 0\<rparr>"

definition rocblas_stop_device_memory_size_query ::
  "rocblas_handle \<Rightarrow> size_t \<times> rocblas_handle" where
  "rocblas_stop_device_memory_size_query h =
     (device_memory_query_size h, h\<lparr>device_memory_size_query := False\<rparr>)"

text \<open>The calls of \<open>set_optimal_device_memory_size\<close> made by the queried routines, in order.\<close>

fun record_requirements :: "rocblas_handle \<Rightarrow> size_t list list \<Rightarrow> rocblas_handle" where
  "record_requirements h [] = h"
| "record_requirements h (sizes # rest) =
     record_requirements (snd (set_optimal_device_memory_size h sizes)) rest"

definition size_query_session :: "rocblas_handle \<Rightarrow> size_t list list \<Rightarrow> size_t" where
  "size_query_session h requests =
     fst (rocblas_stop_device_memory_size_query
            (record_requirements (rocblas_start_device_memory_size_query h) requests))"

section \<open>Scoped overrides of a handle field\<close>


















section \<open>Routine entry points\<close>

text \<open>
  The enumerations of the public header. They are C enumerations, so a caller can pass a
  value that is none of the enumerators: the last constructor of each type.
  \<open>rocblas_int\<close> is \<open>int\<close>, a 32-bit signed integer read through \<open>sint\<close>; a handle
  argument is \<open>None\<close> for a null pointer.
\<close>

datatype rocblas_fill =
  rocblas_fill_upper | rocblas_fill_lower | rocblas_fill_full | rocblas_fill_other

datatype rocblas_operation =
  rocblas_operation_none | rocblas_operation_transpose | rocblas_operation_conjugate_transpose
  | rocblas_operation_other

text \<open>
  The sum of two \<open>int\<close>s. Signed overflow is undefined behaviour in C++: when the exact
  result is not an \<open>int\<close> the source fixes no result, which is \<open>None\<close> here.
\<close>

definition int_range :: "int \<Rightarrow> bool" where
  "int_range i \<longleftrightarrow> - 2147483648 \<le> i \<and> i \<le> 2147483647"

definition int_add :: "rocblas_int \<Rightarrow> rocblas_int \<Rightarrow> rocblas_int option" where
  "int_add a b = (if int_range (sint a + sint b) then Some (a + b) else None)"

text \<open>
  Modelled from the spec: the three logging channels are independent enable bits of the
  \<open>layer_mode\<close> bitmask; the enumerators are declared in the public header, which is
  not part of the sources at hand.
\<close>

definition rocblas_layer_mode_log_trace :: "32 word" where
  "rocblas_layer_mode_log_trace = 1"

definition rocblas_layer_mode_log_bench :: "32 word" where
  "rocblas_layer_mode_log_bench = 2"

definition rocblas_layer_mode_log_profile :: "32 word" where
  "rocblas_layer_mode_log_profile = 4"

text \<open>
  What a routine does besides returning its status: the log records it writes, the calls
  of the numerics check (with its \<open>is_input\<close> flag) and the dispatch to the kernel
  template.
\<close>

datatype effect = Log_trace | Log_bench | Log_profile | Check_numerics bool | Dispatch

text \<open>The logging block of \<open>rocblas_her_impl\<close>.\<close>

definition her_logging :: "rocblas_handle \<Rightarrow> effect list" where
  "her_logging h =
     (let lm = layer_mode h in
      if lm AND (rocblas_layer_mode_log_trace OR rocblas_layer_mode_log_bench
                 OR rocblas_layer_mode_log_profile) \<noteq> 0
      then
        (if pointer_mode h = rocblas_pointer_mode_host
         then (if lm AND rocblas_layer_mode_log_trace \<noteq> 0 then [Log_trace] else [])
              @ (if lm AND rocblas_layer_mode_log_bench \<noteq> 0 then [Log_bench] else [])
         else (if lm AND rocblas_layer_mode_log_trace \<noteq> 0 then [Log_trace] else []))
        @ (if lm AND rocblas_layer_mode_log_profile \<noteq> 0 then [Log_profile] else [])
      else [])"

text \<open>
  \<open>rocblas_her_template\<close> is an external collaborator: \<open>tmpl\<close> gives the status it
  returns for the arguments it is called with.
\<close>

type_synonym her_template =
  "rocblas_handle \<Rightarrow> rocblas_fill \<Rightarrow> rocblas_int \<Rightarrow> ptr \<Rightarrow> ptr \<Rightarrow> rocblas_int \<Rightarrow> ptr
     \<Rightarrow> rocblas_int \<Rightarrow> rocblas_status"

definition rocblas_her_impl ::
  "her_template \<Rightarrow> rocblas_handle option \<Rightarrow> rocblas_fill \<Rightarrow> rocblas_int \<Rightarrow> ptr \<Rightarrow> ptr
     \<Rightarrow> rocblas_int \<Rightarrow> ptr \<Rightarrow> rocblas_int \<Rightarrow> rocblas_status \<times> effect list" where
  "rocblas_her_impl tmpl handle uplo n alpha x incx A lda =
     (case handle of
        None \<Rightarrow> (rocblas_status_invalid_handle, [])
      | Some h \<Rightarrow>
          if is_device_memory_size_query h then (rocblas_status_size_unchanged, [])
          else
            let log = her_logging h in
            if uplo \<noteq> rocblas_fill_lower \<and> uplo \<noteq> rocblas_fill_upper
            then (rocblas_status_invalid_value, log)
            else if sint n < 0 \<or> incx = 0 \<or> sint lda < sint n \<or> sint lda < 1
            then (rocblas_status_invalid_size, log)
            else if n = 0 then (rocblas_status_success, log)
            else if x = 0 \<or> A = 0 \<or> alpha = 0 then (rocblas_status_invalid_pointer, log)
            else (tmpl h uplo n alpha x incx A lda, log @ [Dispatch]))"

text \<open>The logging block of \<open>rocblas_gbmv_batched_impl\<close>.\<close>

definition gbmv_logging :: "rocblas_handle \<Rightarrow> effect list" where
  "gbmv_logging h =
     (let lm = layer_mode h in
      if lm AND (rocblas_layer_mode_log_trace OR rocblas_layer_mode_log_bench
                 OR rocblas_layer_mode_log_profile) \<noteq> 0
      then (if lm AND rocblas_layer_mode_log_trace \<noteq> 0 then [Log_trace] else [])
           @ (if lm AND rocblas_layer_mode_log_bench \<noteq> 0 then [Log_bench] else [])
           @ (if lm AND rocblas_layer_mode_log_profile \<noteq> 0 then [Log_profile] else [])
      else [])"

text \<open>
  \<open>rocblas_gbmv_check_numerics\<close> and \<open>rocblas_gbmv_template\<close> are external
  collaborators: \<open>numerics\<close> and \<open>tmpl\<close> give the statuses they return for the
  arguments they are called with (the constant offsets and strides 0 are left out).
  In the size check, \<open>||\<close> evaluates from the left and stops at the first true operand,
  so \<open>ku + kl + 1\<close> is computed only when \<open>m\<close> and \<open>n\<close> are not negative. When one
  of its two additions overflows the behaviour of the routine is undefined: the result is
  \<open>None\<close>, which stands for no result fixed by the source.
\<close>

type_synonym gbmv_numerics =
  "rocblas_handle \<Rightarrow> rocblas_operation \<Rightarrow> rocblas_int \<Rightarrow> rocblas_int \<Rightarrow> ptr \<Rightarrow> rocblas_int
     \<Rightarrow> ptr \<Rightarrow> rocblas_int \<Rightarrow> ptr \<Rightarrow> rocblas_int \<Rightarrow> rocblas_int \<Rightarrow> 32 word \<Rightarrow> bool
     \<Rightarrow> rocblas_status"

type_synonym gbmv_template =
  "rocblas_handle \<Rightarrow> rocblas_operation \<Rightarrow> rocblas_int \<Rightarrow> rocblas_int \<Rightarrow> rocblas_int
     \<Rightarrow> rocblas_int \<Rightarrow> ptr \<Rightarrow> ptr \<Rightarrow> rocblas_int \<Rightarrow> ptr \<Rightarrow> rocblas_int \<Rightarrow> ptr \<Rightarrow> ptr
     \<Rightarrow> rocblas_int \<Rightarrow> rocblas_int \<Rightarrow> rocblas_status"

text \<open>The part of \<open>rocblas_gbmv_batched_impl\<close> after the size, degenerate-size and pointer checks.\<close>

definition gbmv_compute ::
  "gbmv_numerics \<Rightarrow> gbmv_template \<Rightarrow> rocblas_handle \<Rightarrow> effect list \<Rightarrow> rocblas_operation
     \<Rightarrow> rocblas_int \<Rightarrow> rocblas_int \<Rightarrow> rocblas_int \<Rightarrow> rocblas_int \<Rightarrow> ptr \<Rightarrow> ptr \<Rightarrow> rocblas_int
     \<Rightarrow> ptr \<Rightarrow> rocblas_int \<Rightarrow> ptr \<Rightarrow> ptr \<Rightarrow> rocblas_int \<Rightarrow> rocblas_int
     \<Rightarrow> rocblas_status \<times> effect list" where
  "gbmv_compute numerics tmpl h log transA m n kl ku alpha A lda x incx beta y incy batch_count =
     (let chk = check_numerics h;
          check = numerics h transA m n A lda x incx y incy batch_count chk
      in
      if chk \<noteq> 0 \<and> check True \<noteq> rocblas_status_success
      then (check True, log @ [Check_numerics True])
      else
        let log1 = log @ (if chk \<noteq> 0 then [Check_numerics True] else []) @ [Dispatch];
            status = tmpl h transA m n kl ku alpha A lda x incx beta y incy batch_count
        in
        if status \<noteq> rocblas_status_success then (status, log1)
        else if chk \<noteq> 0 \<and> check False \<noteq> rocblas_status_success
        then (check False, log1 @ [Check_numerics False])
        else (status, log1 @ (if chk \<noteq> 0 then [Check_numerics False] else [])))"

definition rocblas_gbmv_batched_impl ::
  "gbmv_numerics \<Rightarrow> gbmv_template \<Rightarrow> rocblas_handle option \<Rightarrow> rocblas_operation
     \<Rightarrow> rocblas_int \<Rightarrow> rocblas_int \<Rightarrow> rocblas_int \<Rightarrow> rocblas_int \<Rightarrow> ptr \<Rightarrow> ptr \<Rightarrow> rocblas_int
     \<Rightarrow> ptr \<Rightarrow> rocblas_int \<Rightarrow> ptr \<Rightarrow> ptr \<Rightarrow> rocblas_int \<Rightarrow> rocblas_int
     \<Rightarrow> (rocblas_status \<times> effect list) option" where
  "rocblas_gbmv_batched_impl numerics tmpl handle transA m n kl ku alpha A lda x incx beta y incy
       batch_count =
     (case handle of
        None \<Rightarrow> Some (rocblas_status_invalid_handle, [])
      | Some h \<Rightarrow>
          if is_device_memory_size_query h then Some (rocblas_status_size_unchanged, [])
          else
            let log = gbmv_logging h in
            if sint m < 0 \<or> sint n < 0 then Some (rocblas_status_invalid_size, log)
            else
              (case int_add ku kl of
                None \<Rightarrow> None
              | Some ku_kl \<Rightarrow>
                  (case int_add ku_kl 1 of
                     None \<Rightarrow> None
                   | Some band \<Rightarrow>
                       if sint lda < sint band \<or> incx = 0 \<or> incy = 0 \<or> sint kl < 0
                          \<or> sint ku < 0 \<or> sint batch_count < 0
                       then Some (rocblas_status_invalid_size, log)
                       else if m = 0 \<or> n = 0 \<or> batch_count = 0
                       then Some (rocblas_status_success, log)
                       else if A = 0 \<or> x = 0 \<or> y = 0 \<or> alpha = 0 \<or> beta = 0
                       then Some (rocblas_status_invalid_pointer, log)
                       else Some (gbmv_compute numerics tmpl h log transA m n kl ku alpha A lda
                                    x incx beta y incy batch_count))))"

section \<open>Reference notions for the properties\<close>

text \<open>
  The requirement of one call in the spec's words: every size rounded up to the chunk
  granularity, and the rounded sizes summed (in \<open>size_t\<close>).
\<close>

definition rounded_sum :: "size_t list \<Rightarrow> size_t" where
  "rounded_sum sizes = sum_list (map roundup_device_memory_size sizes)"

text \<open>
  The handle as its default member initialisers leave it, with the fields that have none
  set to 0.
\<close>

definition initial_handle :: rocblas_handle where
  "initial_handle =
     \<lparr>pointer_mode = rocblas_pointer_mode_host, layer_mode = 0, check_numerics = 0,
      any_order = False, device_memory_size = 0, device_memory_query_size = 0,
      device_memory = 0, device_memory_is_rocblas_managed = False,
      device_memory_in_use = False, device_memory_size_query = False,
      gsu_workspace_size = 0, gsu_workspace = 0\<rparr>"

text \<open>
  The offset of request \<open>i\<close> in the spec's words: the sum of the rounded sizes of the
  requests before it (in \<open>size_t\<close>). \<open>offset_of sizes (length sizes)\<close> is the total.
\<close>

definition offset_of :: "size_t list \<Rightarrow> nat \<Rightarrow> size_t" where
  "offset_of sizes i = rounded_sum (take i sizes)"

text \<open>The sum of the rounded sizes in unbounded arithmetic.\<close>

definition unwrapped_sum :: "size_t list \<Rightarrow> nat" where
  "unwrapped_sum sizes = sum_list (map (\<lambda>s. unat (roundup_device_memory_size s)) sizes)"

text \<open>
  The spec's rounding and requirement in exact arithmetic: a size raised to the next
  multiple of the chunk size 64, and the rounded sizes of one call added up as natural
  numbers. A call fits \<open>size_t\<close> when neither a rounding nor the sum wraps around.
\<close>

definition chunk_ceiling :: "nat \<Rightarrow> nat" where
  "chunk_ceiling n = (n + 63) div 64 * 64"

definition exact_total :: "size_t list \<Rightarrow> nat" where
  "exact_total sizes = sum_list (map (\<lambda>s. chunk_ceiling (unat s)) sizes)"

definition fits_size_t :: "size_t list \<Rightarrow> bool" where
  "fits_size_t sizes \<longleftrightarrow>
     list_all (\<lambda>s. s \<le> 18446744073709551552) sizes \<and> exact_total sizes < 2 ^ 64"

text \<open>
  Two sample collaborators: an allocator that serves every request from a block at
  address \<open>p\<close>, and a backend that cannot grow the block.
\<close>

definition block_at :: "ptr \<Rightarrow> allocator" where
  "block_at p sz h = (p, h\<lparr>device_memory_in_use := True\<rparr>)"

definition no_growth :: "size_t \<Rightarrow> ptr" where
  "no_growth sz = 0"

text \<open>Sample collaborators of the two routines that report success for every call.\<close>

definition her_template_ok :: her_template where
  "her_template_ok h uplo n alpha x incx A lda = rocblas_status_success"

definition gbmv_template_ok :: gbmv_template where
  "gbmv_template_ok h transA m n kl ku alpha A lda x incx beta y incy batch_count =
     rocblas_status_success"

definition gbmv_numerics_ok :: gbmv_numerics where
  "gbmv_numerics_ok h transA m n A lda x incx y incy batch_count chk is_input =
     rocblas_status_success"

section \<open>Properties of the chunk rounding\<close>

lemma or_63_nat: "(n::nat) OR 63 = n div 64 * 64 + 63"
proof -
  have m: "(63::nat) = mask 6" by (simp add: mask_eq_exp_minus_1)
  have "push_bit 6 (drop_bit 6 n) + mask 6 = push_bit 6 (drop_bit 6 n) OR (mask 6 :: nat)"
    by (rule disjunctive_add_eq_or) (simp add: bit_eq_iff bit_simps)
  also have "\<dots> = n OR mask 6"
    by (rule bit_eqI) (auto simp: bit_simps)
  finally show ?thesis
    by (simp add: m push_bit_eq_mult drop_bit_eq_div)
qed

lemma unat_or_63: "unat ((x::size_t) OR 63) = unat x div 64 * 64 + 63"
  by (simp add: unsigned_or_eq or_63_nat)

lemma roundup_zero: "roundup_device_memory_size 0 = 0"
  by (simp add: roundup_device_memory_size_def MIN_CHUNK_SIZE_def)

lemma unat_roundup_mod:
  assumes "s \<noteq> 0"
  shows "unat (roundup_device_memory_size s) = ((unat s - 1) div 64 * 64 + 64) mod 2 ^ 64"
proof -
  have "unat (s - 1) = unat s - 1" using assms by (simp add: unat_minus_one)
  then have "unat (roundup_device_memory_size s)
      = (64 + (unat s - 1) div 64 * 64) mod 2 ^ 64"
    by (simp add: roundup_device_memory_size_def MIN_CHUNK_SIZE_def unat_or_63 unat_word_ariths)
  also have "64 + (unat s - 1) div 64 * 64 = (unat s - 1) div 64 * 64 + 64"
    by (rule add.commute)
  finally show ?thesis .
qed

lemma unat_roundup:
  assumes "s \<noteq> 0" and "unat s \<le> 2 ^ 64 - 64"
  shows "unat (roundup_device_memory_size s) = (unat s - 1) div 64 * 64 + 64"
proof -
  have "(unat s - 1) div 64 * 64 \<le> unat s - 1" by simp
  moreover have "0 < unat s" using assms(1) by (simp add: unat_gt_0)
  ultimately have "(unat s - 1) div 64 * 64 + 64 < 2 ^ 64" using assms(2) by simp
  then show ?thesis using assms(1) by (simp add: unat_roundup_mod)
qed

lemma roundup_dvd: "64 dvd unat (roundup_device_memory_size s)"
proof (cases "s = 0")
  case True
  then show ?thesis by (simp add: roundup_zero)
next
  case False
  have "(64::nat) dvd 2 ^ 64" by simp
  moreover have "(64::nat) dvd (unat s - 1) div 64 * 64 + 64" by simp
  ultimately have "64 dvd ((unat s - 1) div 64 * 64 + 64) mod 2 ^ 64"
    by (simp only: dvd_mod_iff)
  then show ?thesis using unat_roundup_mod [OF False] by simp
qed

lemma le_max_size: "(s::size_t) \<le> 18446744073709551552 \<longleftrightarrow> unat s \<le> 2 ^ 64 - 64"
  by (simp add: word_le_nat_alt)

text \<open>
  Claim C5, as amended. For every size \<open>s\<close> with \<open>1 \<le> s \<le> 2 ^ 64 - 64\<close> the rounded
  size is a multiple of the chunk size 64, is at least \<open>s\<close> and is less than \<open>s + 64\<close>.
  Above \<open>2 ^ 64 - 64\<close> the addition in the rounding wraps around and the result is 0.
\<close>

theorem roundup_correct:
  assumes "1 \<le> s" and "s \<le> 18446744073709551552"
  shows "roundup_device_memory_size s mod MIN_CHUNK_SIZE = 0
       \<and> s \<le> roundup_device_memory_size s
       \<and> unat (roundup_device_memory_size s) < unat s + unat MIN_CHUNK_SIZE"
proof -
  have nz: "s \<noteq> 0" using assms(1) by auto
  have pos: "0 < unat s" using nz by (simp add: unat_gt_0)
  have u: "unat (roundup_device_memory_size s) = (unat s - 1) div 64 * 64 + 64"
    using nz assms(2) by (simp add: unat_roundup le_max_size)
  have "unat (roundup_device_memory_size s mod MIN_CHUNK_SIZE) = 0"
    using roundup_dvd [of s] by (simp add: unat_mod MIN_CHUNK_SIZE_def)
  then have a: "roundup_device_memory_size s mod MIN_CHUNK_SIZE = 0"
    by (simp add: unat_eq_0)
  have d: "(unat s - 1) div 64 * 64 + (unat s - 1) mod 64 = unat s - 1"
    by (rule div_mult_mod_eq)
  have m: "(unat s - 1) mod 64 < 64" by simp
  have "unat s \<le> (unat s - 1) div 64 * 64 + 64" using pos d m by linarith
  then have b: "s \<le> roundup_device_memory_size s" by (simp add: word_le_nat_alt u)
  have "(unat s - 1) div 64 * 64 + 64 < unat s + 64" using pos d by linarith
  then have c: "unat (roundup_device_memory_size s) < unat s + unat MIN_CHUNK_SIZE"
    by (simp add: u MIN_CHUNK_SIZE_def)
  from a b c show ?thesis by simp
qed

theorem roundup_correct_witness:
  "(1::size_t) \<le> 100 \<and> (100::size_t) \<le> 18446744073709551552
   \<and> roundup_device_memory_size 100 mod MIN_CHUNK_SIZE = 0
   \<and> 100 \<le> roundup_device_memory_size 100
   \<and> unat (roundup_device_memory_size 100) < unat (100::size_t) + unat MIN_CHUNK_SIZE"
proof -
  have a: "(1::size_t) \<le> 100" by simp
  have b: "(100::size_t) \<le> 18446744073709551552" by simp
  show ?thesis using a b roundup_correct [OF a b] by simp
qed

theorem roundup_overflow_counterexample:
  "(1::size_t) \<le> 18446744073709551615
   \<and> \<not> (18446744073709551615 \<le> roundup_device_memory_size 18446744073709551615)"
  by (simp add: roundup_device_memory_size_def MIN_CHUNK_SIZE_def)

section \<open>Recording requirements during a size query\<close>

lemma accumulate_total_sum:
  "accumulate_total tot sizes = tot + rounded_sum sizes"
  by (induction sizes arbitrary: tot) (simp_all add: rounded_sum_def add.assoc)

lemma rounded_sum_zeros: "\<forall>s\<in>set sizes. s = 0 \<Longrightarrow> rounded_sum sizes = 0"
  by (induction sizes) (simp_all add: rounded_sum_def roundup_zero)



text \<open>
  Claim C8. A call of \<open>set_optimal_device_memory_size\<close> outside size-query mode
  returns the "internal error" status and leaves the handle, and so the recorded query
  size, unchanged.
\<close>

theorem set_optimal_outside_query:
  assumes "\<not> device_memory_size_query h"
  shows "set_optimal_device_memory_size h sizes = (rocblas_status_internal_error, h)"
  using assms by (simp add: set_optimal_device_memory_size_def)

theorem set_optimal_outside_query_witness:
  "\<not> device_memory_size_query initial_handle
   \<and> set_optimal_device_memory_size initial_handle [50, 100]
       = (rocblas_status_internal_error, initial_handle)"
proof -
  have q: "\<not> device_memory_size_query initial_handle" by (simp add: initial_handle_def)
  show ?thesis using q set_optimal_outside_query [OF q, of "[50, 100]"] by simp
qed

section \<open>Carving the block into sub-buffers\<close>

lemma compute_offsets_snd: "snd (compute_offsets tot sizes) = tot + rounded_sum sizes"
  by (induction sizes arbitrary: tot)
     (simp_all add: rounded_sum_def split_beta add.assoc)

lemma compute_offsets_length: "length (fst (compute_offsets tot sizes)) = length sizes"
  by (induction sizes arbitrary: tot) (simp_all add: split_beta)

lemma compute_offsets_nth:
  "i < length sizes \<Longrightarrow> fst (compute_offsets tot sizes) ! i = tot + offset_of sizes i"
proof (induction sizes arbitrary: tot i)
  case Nil
  then show ?case by simp
next
  case (Cons s sizes)
  show ?case
  proof (cases i)
    case 0
    then show ?thesis by (simp add: split_beta offset_of_def rounded_sum_def)
  next
    case (Suc k)
    then have "k < length sizes" using Cons.prems by simp
    from Cons.IH [OF this] show ?thesis
      using Suc by (simp add: split_beta offset_of_def rounded_sum_def add.assoc)
  qed
qed

lemma form_pointers_length: "length (form_pointers p offsets i sizes) = length sizes"
  by (induction sizes arbitrary: i) simp_all

lemma form_pointers_nth:
  "j < length sizes \<Longrightarrow>
   form_pointers p offsets i sizes ! j = (if sizes ! j = 0 then 0 else p + offsets ! (i + j))"
proof (induction sizes arbitrary: i j)
  case Nil
  then show ?case by simp
next
  case (Cons s sizes)
  show ?case
  proof (cases j)
    case 0
    then show ?thesis by simp
  next
    case (Suc k)
    then have "k < length sizes" using Cons.prems by simp
    from Cons.IH [OF this] show ?thesis using Suc by simp
  qed
qed

lemma array_of_full: "length ps = N \<Longrightarrow> array_of N ps = ps"
  by (simp add: array_of_def)

lemma array_of_empty: "array_of N [] = replicate N 0"
  by (simp add: array_of_def)

lemma formed_pointers:
  "form_pointers p (fst (compute_offsets 0 sizes)) 0 sizes =
     map (\<lambda>i. if sizes ! i = 0 then 0 else p + offset_of sizes i) [0..<length sizes]"
  by (rule nth_equalityI)
     (simp_all add: form_pointers_length form_pointers_nth compute_offsets_nth)

lemma allocate_pointers_trivial:
  assumes "rounded_sum sizes = 0"
  shows "allocate_pointers N alloc h sizes =
           (\<lparr>success = True, total_size = 0, pointers = replicate N 0\<rparr>, h)"
  using assms compute_offsets_snd [of 0 sizes]
  by (simp add: allocate_pointers_def split_beta array_of_empty)

lemma allocate_pointers_failed:
  assumes "rounded_sum sizes \<noteq> 0" and "fst (alloc (rounded_sum sizes) h) = 0"
  shows "allocate_pointers N alloc h sizes =
           (\<lparr>success = False, total_size = rounded_sum sizes, pointers = replicate N 0\<rparr>,
            snd (alloc (rounded_sum sizes) h))"
  using assms compute_offsets_snd [of 0 sizes]
  by (simp add: allocate_pointers_def split_beta array_of_empty)

lemma allocate_pointers_served:
  assumes "rounded_sum sizes \<noteq> 0" and "fst (alloc (rounded_sum sizes) h) \<noteq> 0"
  shows "allocate_pointers N alloc h sizes =
           (\<lparr>success = True, total_size = rounded_sum sizes,
             pointers = array_of N
               (map (\<lambda>i. if sizes ! i = 0 then 0
                          else fst (alloc (rounded_sum sizes) h) + offset_of sizes i)
                    [0..<length sizes])\<rparr>,
            snd (alloc (rounded_sum sizes) h))"
  using assms compute_offsets_snd [of 0 sizes]
  by (simp add: allocate_pointers_def split_beta formed_pointers)

lemma le_roundup:
  assumes "s \<le> 18446744073709551552"
  shows "unat s \<le> unat (roundup_device_memory_size s)"
proof (cases "s = 0")
  case True
  then show ?thesis by simp
next
  case False
  then have pos: "0 < unat s" by (simp add: unat_gt_0)
  have u: "unat (roundup_device_memory_size s) = (unat s - 1) div 64 * 64 + 64"
    using False assms by (simp add: unat_roundup le_max_size)
  have d: "(unat s - 1) div 64 * 64 + (unat s - 1) mod 64 = unat s - 1"
    by (rule div_mult_mod_eq)
  have m: "(unat s - 1) mod 64 < 64" by simp
  show ?thesis using pos d m unfolding u by linarith
qed

lemma dvd_unat_add:
  fixes a b :: size_t
  assumes "64 dvd unat a" and "64 dvd unat b"
  shows "64 dvd unat (a + b)"
proof -
  have "(64::nat) dvd 2 ^ 64" by simp
  moreover have "(64::nat) dvd unat a + unat b" using assms by simp
  ultimately have "64 dvd (unat a + unat b) mod 2 ^ 64" by (simp only: dvd_mod_iff)
  then show ?thesis by (simp add: unat_word_ariths)
qed

lemma rounded_sum_dvd: "64 dvd unat (rounded_sum sizes)"
proof (induction sizes)
  case Nil
  then show ?case by (simp add: rounded_sum_def)
next
  case (Cons s sizes)
  have "rounded_sum (s # sizes) = roundup_device_memory_size s + rounded_sum sizes"
    by (simp add: rounded_sum_def)
  then show ?case using dvd_unat_add [OF roundup_dvd Cons.IH] by simp
qed

lemma unat_rounded_sum:
  "unwrapped_sum sizes < 2 ^ 64 \<Longrightarrow> unat (rounded_sum sizes) = unwrapped_sum sizes"
proof (induction sizes)
  case Nil
  then show ?case by (simp add: rounded_sum_def unwrapped_sum_def)
next
  case (Cons s sizes)
  have e: "unwrapped_sum (s # sizes) = unat (roundup_device_memory_size s) + unwrapped_sum sizes"
    by (simp add: unwrapped_sum_def)
  then have "unwrapped_sum sizes < 2 ^ 64" using Cons.prems by simp
  then have ih: "unat (rounded_sum sizes) = unwrapped_sum sizes" by (rule Cons.IH)
  have "unat (roundup_device_memory_size s) + unat (rounded_sum sizes) < 2 ^ LENGTH(64)"
    using Cons.prems e ih by simp
  then have "unat (roundup_device_memory_size s + rounded_sum sizes)
      = unat (roundup_device_memory_size s) + unat (rounded_sum sizes)"
    by (simp only: unat_add_lem)
  then have "unat (rounded_sum (s # sizes))
      = unat (roundup_device_memory_size s) + unat (rounded_sum sizes)"
    by (simp add: rounded_sum_def)
  then show ?case by (simp only: e ih)
qed

lemma unwrapped_sum_append:
  "unwrapped_sum (xs @ ys) = unwrapped_sum xs + unwrapped_sum ys"
  by (simp add: unwrapped_sum_def)

lemma unwrapped_sum_take: "unwrapped_sum (take i sizes) \<le> unwrapped_sum sizes"
proof -
  have "unwrapped_sum (take i sizes @ drop i sizes)
      = unwrapped_sum (take i sizes) + unwrapped_sum (drop i sizes)"
    by (rule unwrapped_sum_append)
  then show ?thesis by simp
qed

lemma offsets_disjoint:
  assumes fit: "\<forall>s\<in>set sizes. s \<le> 18446744073709551552"
    and sum: "unwrapped_sum sizes < 2 ^ 64"
    and ij: "i < j" "j \<le> length sizes"
  shows "unat (offset_of sizes i) + unat (sizes ! i) \<le> unat (offset_of sizes j)"
proof -
  have i: "i < length sizes" using ij by simp
  have u: "unat (offset_of sizes k) = unwrapped_sum (take k sizes)" for k
  proof -
    have "unwrapped_sum (take k sizes) < 2 ^ 64"
      using unwrapped_sum_take [of k sizes] sum by simp
    then show ?thesis by (simp add: offset_of_def unat_rounded_sum)
  qed
  have "sizes ! i \<in> set sizes" using i by simp
  then have "sizes ! i \<le> 18446744073709551552" using fit by blast
  then have r: "unat (sizes ! i) \<le> unat (roundup_device_memory_size (sizes ! i))"
    by (rule le_roundup)
  have "take (Suc i) sizes = take i sizes @ [sizes ! i]"
    using i by (rule take_Suc_conv_app_nth)
  then have s: "unwrapped_sum (take (Suc i) sizes)
      = unwrapped_sum (take i sizes) + unat (roundup_device_memory_size (sizes ! i))"
    by (simp add: unwrapped_sum_def)
  have "take (Suc i) (take j sizes) = take (Suc i) sizes" using ij by (simp add: min_def)
  then have "unwrapped_sum (take (Suc i) sizes) \<le> unwrapped_sum (take j sizes)"
    using unwrapped_sum_take [of "Suc i" "take j sizes"] by simp
  then show ?thesis using r s by (simp add: u)
qed

lemma device_malloc_trivial:
  assumes "rounded_sum sizes = 0"
  shows "device_malloc alloc h sizes =
           (\<lparr>success = True, total_size = 0, pointers = replicate (length sizes) 0\<rparr>, h)"
  using assms by (simp add: device_malloc_def allocate_pointers_trivial)

lemma device_malloc_served:
  assumes "rounded_sum sizes \<noteq> 0" and "alloc (rounded_sum sizes) h = (p, h')" and "p \<noteq> 0"
  shows "device_malloc alloc h sizes =
           (\<lparr>success = True, total_size = rounded_sum sizes,
             pointers = map (\<lambda>i. if sizes ! i = 0 then 0 else p + offset_of sizes i)
                            [0..<length sizes]\<rparr>, h')"
proof -
  have "fst (alloc (rounded_sum sizes) h) \<noteq> 0" using assms by simp
  then have "allocate_pointers (length sizes) alloc h sizes =
           (\<lparr>success = True, total_size = rounded_sum sizes,
             pointers = array_of (length sizes)
               (map (\<lambda>i. if sizes ! i = 0 then 0
                          else fst (alloc (rounded_sum sizes) h) + offset_of sizes i)
                    [0..<length sizes])\<rparr>,
            snd (alloc (rounded_sum sizes) h))"
    using assms(1) by (rule allocate_pointers_served [rotated])
  then show ?thesis
    using assms(2) by (simp add: device_malloc_def array_of_full)
qed

lemma device_malloc_failed:
  assumes "rounded_sum sizes \<noteq> 0" and "fst (alloc (rounded_sum sizes) h) = 0"
  shows "device_malloc alloc h sizes =
           (\<lparr>success = False, total_size = rounded_sum sizes,
             pointers = replicate (length sizes) 0\<rparr>,
            snd (alloc (rounded_sum sizes) h))"
  using assms by (simp add: device_malloc_def allocate_pointers_failed)

lemma rounded_sum_examples:
  "rounded_sum [100, 0, 50] = 192" "rounded_sum [0, 0] = 0" "rounded_sum [100] = 128"
  "rounded_sum [18446744073709551615, 64] = 64"
  by (simp_all add: rounded_sum_def roundup_device_memory_size_def MIN_CHUNK_SIZE_def)

lemma device_malloc_sufficient:
  assumes "rounded_sum sizes \<noteq> 0" and "rounded_sum sizes \<le> device_memory_size h"
    and "device_memory h \<noteq> 0"
  shows "device_malloc (device_allocator grow) h sizes =
           (\<lparr>success = True, total_size = rounded_sum sizes,
             pointers = map (\<lambda>i. if sizes ! i = 0 then 0
                                 else device_memory h + offset_of sizes i)
                            [0..<length sizes]\<rparr>,
            h\<lparr>device_memory_in_use := True\<rparr>)"
proof -
  have "device_allocator grow (rounded_sum sizes) h
      = (device_memory h, h\<lparr>device_memory_in_use := True\<rparr>)"
    using assms(2) by (simp add: device_allocator_def)
  with assms(1,3) show ?thesis
    using device_malloc_served [of sizes "device_allocator grow" h "device_memory h"
        "h\<lparr>device_memory_in_use := True\<rparr>"]
    by blast
qed

text \<open>
  Claim C1, as amended. When the total of the rounded sizes is 0 the allocation succeeds
  with all pointers null, whatever the allocator is: it is not called and the handle is
  unchanged. When the total is not 0 and the allocator yields a block at \<open>p\<close>, the
  allocation succeeds, the handle is as the allocator left it, and pointer \<open>i\<close> is
  null for a zero-sized request and otherwise \<open>p\<close> plus the sum of the rounded sizes of
  the requests before it. In particular, with the handle's allocator, this is so whenever
  the handle holds a block whose size is at least the sum of the rounded sizes: the
  pointers are then offsets into the handle's own block and the in-use guard is set.
  Every offset is a multiple of 64. When every size is at most \<open>2 ^ 64 - 64\<close> and
  the rounded sizes add up to less than \<open>2 ^ 64\<close>, so that nothing wraps around, the
  sub-buffers do not overlap: request \<open>i\<close> ends at or before the offset of every
  later request, and at or before the total.
\<close>

theorem device_malloc_pointers:
  "(rounded_sum sizes = 0 \<longrightarrow>
      device_malloc alloc h sizes =
        (\<lparr>success = True, total_size = 0, pointers = replicate (length sizes) 0\<rparr>, h))
   \<and> (rounded_sum sizes \<noteq> 0 \<and> alloc (rounded_sum sizes) h = (p, h') \<and> p \<noteq> 0 \<longrightarrow>
      device_malloc alloc h sizes =
        (\<lparr>success = True, total_size = rounded_sum sizes,
          pointers = map (\<lambda>i. if sizes ! i = 0 then 0 else p + offset_of sizes i)
                         [0..<length sizes]\<rparr>, h'))
   \<and> (rounded_sum sizes \<noteq> 0 \<and> rounded_sum sizes \<le> device_memory_size h
       \<and> device_memory h \<noteq> 0 \<longrightarrow>
      device_malloc (device_allocator grow) h sizes =
        (\<lparr>success = True, total_size = rounded_sum sizes,
          pointers = map (\<lambda>i. if sizes ! i = 0 then 0
                              else device_memory h + offset_of sizes i)
                         [0..<length sizes]\<rparr>,
         h\<lparr>device_memory_in_use := True\<rparr>))
   \<and> (\<forall>i\<le>length sizes. 64 dvd unat (offset_of sizes i))
   \<and> ((\<forall>s\<in>set sizes. s \<le> 18446744073709551552) \<and> unwrapped_sum sizes < 2 ^ 64 \<longrightarrow>
        (\<forall>i j. i < j \<and> j \<le> length sizes \<longrightarrow>
           unat (offset_of sizes i) + unat (sizes ! i) \<le> unat (offset_of sizes j)))"
proof -
  have a: "\<forall>i\<le>length sizes. 64 dvd unat (offset_of sizes i)"
    by (simp add: offset_of_def rounded_sum_dvd)
  show ?thesis
    using a device_malloc_trivial device_malloc_served device_malloc_sufficient offsets_disjoint
    by blast
qed

theorem device_malloc_pointers_witness:
  "rounded_sum [0, 0] = 0
   \<and> device_malloc (block_at 4096) initial_handle [0, 0] =
       (\<lparr>success = True, total_size = 0, pointers = [0, 0]\<rparr>, initial_handle)
   \<and> rounded_sum [100, 0, 50] \<noteq> 0
   \<and> device_malloc (block_at 4096) initial_handle [100, 0, 50] =
       (\<lparr>success = True, total_size = 192, pointers = [4096, 0, 4224]\<rparr>,
        initial_handle\<lparr>device_memory_in_use := True\<rparr>)
   \<and> list_all (\<lambda>s. s \<le> 18446744073709551552) [100, 0, 50 :: size_t]
   \<and> unwrapped_sum [100, 0, 50] < 2 ^ 64
   \<and> unat (offset_of [100, 0, 50] 0) + unat ([100, 0, 50 :: size_t] ! 0)
       \<le> unat (offset_of [100, 0, 50] 2)
   \<and> rounded_sum [100, 0, 50] \<le> device_memory_size
         (initial_handle\<lparr>device_memory_size := 192, device_memory := 65536\<rparr>)
   \<and> device_memory (initial_handle\<lparr>device_memory_size := 192, device_memory := 65536\<rparr>) \<noteq> 0
   \<and> device_malloc (device_allocator no_growth)
         (initial_handle\<lparr>device_memory_size := 192, device_memory := 65536\<rparr>) [100, 0, 50] =
       (\<lparr>success = True, total_size = 192, pointers = [65536, 0, 65664]\<rparr>,
        initial_handle\<lparr>device_memory_size := 192, device_memory := 65536,
          device_memory_in_use := True\<rparr>)"
proof -
  have z: "rounded_sum [0, 0] = 0" by (rule rounded_sum_examples)
  have n: "rounded_sum [100, 0, 50] \<noteq> 0" by (simp add: rounded_sum_examples)
  have a: "block_at 4096 (rounded_sum [100, 0, 50]) initial_handle
      = (4096, initial_handle\<lparr>device_memory_in_use := True\<rparr>)"
    by (simp add: block_at_def)
  have p: "(4096 :: ptr) \<noteq> 0" by simp
  have f: "\<forall>s\<in>set [100, 0, 50 :: size_t]. s \<le> 18446744073709551552" by simp
  have u: "unwrapped_sum [100, 0, 50] < 2 ^ 64"
    by (simp add: unwrapped_sum_def roundup_device_memory_size_def MIN_CHUNK_SIZE_def)
  have ij: "(0::nat) < 2 \<and> 2 \<le> length [100, 0, 50 :: size_t]" by simp
  have m: "map (\<lambda>i. if [100, 0, 50 :: size_t] ! i = 0 then 0
                     else (4096 :: ptr) + offset_of [100, 0, 50] i) [0..<length [100, 0, 50 :: size_t]]
      = [4096, 0, 4224]"
    by (simp add: upt_rec offset_of_def rounded_sum_def roundup_device_memory_size_def
        MIN_CHUNK_SIZE_def)
  have t0: "device_malloc (block_at 4096) initial_handle [0, 0] =
       (\<lparr>success = True, total_size = 0, pointers = [0, 0]\<rparr>, initial_handle)"
    using device_malloc_pointers [of "[0, 0]" "block_at 4096" initial_handle] z
    by (simp add: numeral_2_eq_2)
  have t1: "device_malloc (block_at 4096) initial_handle [100, 0, 50] =
       (\<lparr>success = True, total_size = 192, pointers = [4096, 0, 4224]\<rparr>,
        initial_handle\<lparr>device_memory_in_use := True\<rparr>)"
    using device_malloc_pointers [of "[100, 0, 50]" "block_at 4096" initial_handle 4096
        "initial_handle\<lparr>device_memory_in_use := True\<rparr>"] n a p
    by (simp only: m rounded_sum_examples) simp
  have t2: "unat (offset_of [100, 0, 50] 0) + unat ([100, 0, 50 :: size_t] ! 0)
       \<le> unat (offset_of [100, 0, 50] 2)"
    using device_malloc_pointers [of "[100, 0, 50]" "block_at 4096" initial_handle 4096
        "initial_handle\<lparr>device_memory_in_use := True\<rparr>"] f u ij
    by blast
  have g: "list_all (\<lambda>s. s \<le> 18446744073709551552) [100, 0, 50 :: size_t]" by simp
  let ?h = "initial_handle\<lparr>device_memory_size := 192, device_memory := 65536\<rparr>"
  have b3: "rounded_sum [100, 0, 50] \<le> device_memory_size ?h"
    by (simp add: rounded_sum_examples)
  have d3: "device_memory ?h \<noteq> 0" by simp
  have m2: "map (\<lambda>i. if [100, 0, 50 :: size_t] ! i = 0 then 0
                     else device_memory ?h + offset_of [100, 0, 50] i)
               [0..<length [100, 0, 50 :: size_t]]
      = [65536, 0, 65664]"
    by (simp add: upt_rec offset_of_def rounded_sum_def roundup_device_memory_size_def
        MIN_CHUNK_SIZE_def)
  have t3: "device_malloc (device_allocator no_growth) ?h [100, 0, 50] =
       (\<lparr>success = True, total_size = 192, pointers = [65536, 0, 65664]\<rparr>,
        ?h\<lparr>device_memory_in_use := True\<rparr>)"
    using device_malloc_pointers [of "[100, 0, 50]" _ ?h _ _ no_growth] n b3 d3
    by (simp only: m2 rounded_sum_examples) simp
  have t4: "device_malloc (device_allocator no_growth) ?h [100, 0, 50] =
       (\<lparr>success = True, total_size = 192, pointers = [65536, 0, 65664]\<rparr>,
        initial_handle\<lparr>device_memory_size := 192, device_memory := 65536,
          device_memory_in_use := True\<rparr>)"
    using t3 by simp
  from z t0 n t1 g u t2 b3 d3 t4 show ?thesis by blast
qed

theorem device_malloc_overlap_counterexample:
  "success (fst (device_malloc (block_at 4096) initial_handle [18446744073709551615, 64]))
   \<and> pointers (fst (device_malloc (block_at 4096) initial_handle [18446744073709551615, 64]))
       = [4096, 4096]
   \<and> \<not> (unat (offset_of [18446744073709551615, 64] 0) + unat (18446744073709551615 :: size_t)
          \<le> unat (offset_of [18446744073709551615, 64] (Suc 0)))"
proof -
  have n: "rounded_sum [18446744073709551615, 64] \<noteq> 0" by (simp add: rounded_sum_examples)
  have a: "block_at 4096 (rounded_sum [18446744073709551615, 64]) initial_handle
      = (4096, initial_handle\<lparr>device_memory_in_use := True\<rparr>)"
    by (simp add: block_at_def)
  have o: "offset_of [18446744073709551615, 64] 0 = 0"
    "offset_of [18446744073709551615, 64] (Suc 0) = 0"
    by (simp_all add: offset_of_def rounded_sum_def roundup_device_memory_size_def
        MIN_CHUNK_SIZE_def)
  have p: "(4096 :: ptr) \<noteq> 0" by simp
  show ?thesis
    using n a p
      device_malloc_served [of "[18446744073709551615, 64]" "block_at 4096" initial_handle 4096
        "initial_handle\<lparr>device_memory_in_use := True\<rparr>"]
    by (simp add: upt_rec o)
qed

text \<open>
  Claim C10. The rounding of size 0 is 0: \<open>(0 - 1) | 63\<close> is the all-ones word and
  adding 1 wraps around to 0. So a recording of zero sizes only has total 0 and leaves
  the recorded maximum as it is, and an allocation of zero sizes only succeeds with all
  pointers null, without a call of the allocator and without a change of the handle.
\<close>

theorem roundup_of_zero:
  "((0::size_t) - 1) OR (MIN_CHUNK_SIZE - 1) = 18446744073709551615
   \<and> roundup_device_memory_size 0 = 0
   \<and> ((\<forall>s\<in>set sizes. s = 0) \<longrightarrow>
        accumulate_total 0 sizes = 0
        \<and> (device_memory_size_query h \<longrightarrow>
             set_optimal_device_memory_size h sizes = (rocblas_status_size_unchanged, h))
        \<and> device_malloc alloc h sizes =
            (\<lparr>success = True, total_size = 0, pointers = replicate (length sizes) 0\<rparr>, h))"
proof -
  have a: "((0::size_t) - 1) OR (MIN_CHUNK_SIZE - 1) = 18446744073709551615"
    by (simp add: MIN_CHUNK_SIZE_def)
  have b: "accumulate_total 0 sizes = 0" if "\<forall>s\<in>set sizes. s = 0"
    using that by (simp add: accumulate_total_sum rounded_sum_zeros)
  have c: "set_optimal_device_memory_size h sizes = (rocblas_status_size_unchanged, h)"
    if "\<forall>s\<in>set sizes. s = 0" and "device_memory_size_query h"
    using that b by (simp add: set_optimal_device_memory_size_def)
  have d: "device_malloc alloc h sizes =
            (\<lparr>success = True, total_size = 0, pointers = replicate (length sizes) 0\<rparr>, h)"
    if "\<forall>s\<in>set sizes. s = 0"
    using that by (simp add: device_malloc_trivial rounded_sum_zeros)
  from a b c d roundup_zero show ?thesis by blast
qed

theorem roundup_of_zero_witness:
  "list_all (\<lambda>s. s = 0) [0, 0 :: size_t]
   \<and> accumulate_total 0 [0, 0] = 0
   \<and> device_memory_size_query (rocblas_start_device_memory_size_query initial_handle)
   \<and> set_optimal_device_memory_size (rocblas_start_device_memory_size_query initial_handle) [0, 0]
       = (rocblas_status_size_unchanged, rocblas_start_device_memory_size_query initial_handle)
   \<and> device_malloc (block_at 4096) initial_handle [0, 0] =
       (\<lparr>success = True, total_size = 0, pointers = [0, 0]\<rparr>, initial_handle)"
proof -
  have z: "\<forall>s\<in>set [0, 0 :: size_t]. s = 0" by simp
  have q: "device_memory_size_query (rocblas_start_device_memory_size_query initial_handle)"
    by (simp add: rocblas_start_device_memory_size_query_def)
  show ?thesis
    using z q
      roundup_of_zero [of "[0, 0]" "rocblas_start_device_memory_size_query initial_handle"
        "block_at 4096"]
      roundup_of_zero [of "[0, 0]" initial_handle "block_at 4096"]
    by (simp add: numeral_2_eq_2)
qed

section \<open>The result of a size-query session\<close>

lemma set_optimal_query_step:
  assumes "device_memory_size_query h"
  shows "snd (set_optimal_device_memory_size h sizes) =
           h\<lparr>device_memory_query_size := max (device_memory_query_size h) (rounded_sum sizes)\<rparr>"
  using assms
  by (simp add: set_optimal_device_memory_size_def accumulate_total_sum Let_def max_def not_less)

lemma record_requirements_fold:
  assumes "device_memory_size_query h"
  shows "record_requirements h requests =
           h\<lparr>device_memory_query_size :=
               fold max (map rounded_sum requests) (device_memory_query_size h)\<rparr>"
  using assms
proof (induction requests arbitrary: h)
  case Nil
  then show ?case by simp
next
  case (Cons sizes rest)
  let ?h = "h\<lparr>device_memory_query_size := max (device_memory_query_size h) (rounded_sum sizes)\<rparr>"
  have "device_memory_size_query ?h" using Cons.prems by simp
  from Cons.IH [OF this] show ?case
    using Cons.prems by (simp add: set_optimal_query_step max.commute)
qed

lemma size_query_session_fold:
  "size_query_session h requests = fold max (map rounded_sum requests) 0"
  by (simp add: size_query_session_def rocblas_stop_device_memory_size_query_def
      rocblas_start_device_memory_size_query_def record_requirements_fold)

lemma size_query_session_Max:
  "size_query_session h requests = Max (set (0 # map rounded_sum requests))"
  by (simp only: size_query_session_fold Max.set_eq_fold)

lemma Max_with_zero:
  fixes xs :: "size_t list"
  assumes "xs \<noteq> []"
  shows "Max (set (0 # xs)) = Max (set xs)"
proof -
  have "set xs \<noteq> {}" using assms by simp
  then have "Max (insert 0 (set xs)) = max 0 (Max (set xs))" by simp
  then show ?thesis by (simp add: max_def)
qed

lemma unat_roundup_ceiling:
  assumes "s \<le> 18446744073709551552"
  shows "unat (roundup_device_memory_size s) = chunk_ceiling (unat s)"
proof (cases "s = 0")
  case True
  then show ?thesis by (simp add: roundup_zero chunk_ceiling_def)
next
  case False
  then have pos: "0 < unat s" by (simp add: unat_gt_0)
  have u: "unat (roundup_device_memory_size s) = (unat s - 1) div 64 * 64 + 64"
    using False assms by (simp add: unat_roundup le_max_size)
  have "unat s + 63 = (unat s - 1) + 1 * 64" using pos by simp
  then have "(unat s + 63) div 64 = (unat s - 1) div 64 + 1"
    by (simp only: div_mult_self3)
  then show ?thesis by (simp add: u chunk_ceiling_def)
qed

lemma unwrapped_sum_exact:
  "list_all (\<lambda>s. s \<le> 18446744073709551552) sizes \<Longrightarrow> unwrapped_sum sizes = exact_total sizes"
  by (induction sizes) (simp_all add: unwrapped_sum_def exact_total_def unat_roundup_ceiling)

lemma unat_rounded_sum_exact:
  assumes "fits_size_t sizes"
  shows "unat (rounded_sum sizes) = exact_total sizes"
proof -
  have e: "unwrapped_sum sizes = exact_total sizes"
    using assms by (simp add: fits_size_t_def unwrapped_sum_exact)
  then have "unwrapped_sum sizes < 2 ^ 64" using assms by (simp add: fits_size_t_def)
  then show ?thesis using e by (simp add: unat_rounded_sum)
qed

lemma mono_unat: "mono (unat :: size_t \<Rightarrow> nat)"
  by (rule monoI) (simp add: word_le_nat_alt)

lemma unat_Max_totals:
  assumes "list_all fits_size_t requests"
  shows "unat (Max (set (0 # map rounded_sum requests))) = Max (set (0 # map exact_total requests))"
proof -
  have "unat (Max (set (0 # map rounded_sum requests)))
      = Max (unat ` set (0 # map rounded_sum requests))"
    by (rule mono_Max_commute [OF mono_unat]) simp_all
  also have "unat ` set (0 # map rounded_sum requests)
      = set (0 # map (\<lambda>sizes. unat (rounded_sum sizes)) requests)"
    by (simp add: image_image)
  also have "map (\<lambda>sizes. unat (rounded_sum sizes)) requests = map exact_total requests"
    using assms by (simp add: list_all_iff unat_rounded_sum_exact)
  finally show ?thesis .
qed

text \<open>
  Claim C6. Within one size-query session, the requirement returned when the session
  ends is the maximum of the recorded totals (each the rounded sizes of one call, summed),
  0 when nothing was recorded, and it is the same for every permutation of the recordings.
  When no recording wraps around, the totals are the exact ones: every size raised to the
  next multiple of 64 and the results added up, as natural numbers.
\<close>

theorem size_query_session_maximum:
  "size_query_session h requests = Max (set (0 # map rounded_sum requests))
   \<and> (requests \<noteq> [] \<longrightarrow> size_query_session h requests = Max (set (map rounded_sum requests)))
   \<and> (mset requests' = mset requests
        \<longrightarrow> size_query_session h requests' = size_query_session h requests)
   \<and> (list_all fits_size_t requests
        \<longrightarrow> unat (size_query_session h requests) = Max (set (0 # map exact_total requests)))"
proof -
  have a: "size_query_session h requests = Max (set (0 # map rounded_sum requests))"
    by (rule size_query_session_Max)
  have b: "size_query_session h requests = Max (set (map rounded_sum requests))"
    if "requests \<noteq> []"
  proof -
    have "map rounded_sum requests \<noteq> []" using that by simp
    from Max_with_zero [OF this] show ?thesis by (simp only: a)
  qed
  have c: "size_query_session h requests' = size_query_session h requests"
    if "mset requests' = mset requests"
  proof -
    have "set requests' = set requests" using that by (rule mset_eq_setD)
    then show ?thesis by (simp add: size_query_session_Max)
  qed
  have d: "unat (size_query_session h requests) = Max (set (0 # map exact_total requests))"
    if "list_all fits_size_t requests"
    using that by (simp only: a unat_Max_totals)
  from a b c d show ?thesis by blast
qed

theorem size_query_session_maximum_witness:
  "[[50], [200]] \<noteq> ([] :: size_t list list)
   \<and> mset [[200], [50 :: size_t]] = mset [[50], [200]]
   \<and> list_all fits_size_t [[50], [200]]
   \<and> Max (set (0 # map exact_total [[50], [200]])) = 256
   \<and> size_query_session initial_handle [[50], [200]] = 256
   \<and> size_query_session initial_handle [[200], [50]] = 256"
proof -
  have n: "[[50], [200]] \<noteq> ([] :: size_t list list)" by simp
  have m: "mset [[200], [50 :: size_t]] = mset [[50], [200]]" by simp
  have e: "exact_total [50] = 64" "exact_total [200] = 256"
    by (simp_all add: exact_total_def chunk_ceiling_def)
  have f: "list_all fits_size_t [[50], [200]]"
    by (simp add: fits_size_t_def e)
  have x: "Max (set (0 # map exact_total [[50], [200]])) = 256"
    by (simp add: e)
  note t = size_query_session_maximum [of initial_handle "[[50], [200]]" "[[200], [50]]"]
  have "unat (size_query_session initial_handle [[50], [200]])
      = Max (set (0 # map exact_total [[50], [200]]))"
    using t f by blast
  then have u: "unat (size_query_session initial_handle [[50], [200]]) = unat (256 :: size_t)"
    by (simp only: x) simp
  then have 1: "size_query_session initial_handle [[50], [200]] = 256"
    by (simp only: unsigned_word_eqI)
  have "size_query_session initial_handle [[200], [50]]
      = size_query_session initial_handle [[50], [200]]"
    using t m by blast
  then have 2: "size_query_session initial_handle [[200], [50]] = 256"
    by (simp only: 1)
  from n m f x 1 2 show ?thesis by blast
qed

section \<open>A failed allocation\<close>

lemma device_allocator_failed:
  assumes "fst (device_allocator grow sz h) = 0"
  shows "(snd (device_allocator grow sz h))\<lparr>device_memory_in_use := False\<rparr>
           = h\<lparr>device_memory_in_use := False\<rparr>"
  using assms by (simp add: device_allocator_def Let_def split: if_splits)

text \<open>
  Claim C3. When the allocator returns no block, the allocation object is constructed
  with \<open>success = false\<close> and all pointers null, and after its destructor has run the
  handle is as the allocator left it with the in-use guard cleared; with the handle's
  allocator (which leaves the block untouched when it fails) the handle is the one before
  the call with the guard cleared. The destructor writes the guard only: it never frees or
  changes the block.
\<close>

theorem failed_allocation_leaves_handle:
  "(rounded_sum sizes \<noteq> 0 \<and> fst (alloc (rounded_sum sizes) h) = 0 \<longrightarrow>
      fst (device_malloc alloc h sizes) =
        \<lparr>success = False, total_size = rounded_sum sizes,
         pointers = replicate (length sizes) 0\<rparr>
      \<and> device_malloc_dtor (snd (device_malloc alloc h sizes)) =
          (snd (alloc (rounded_sum sizes) h))\<lparr>device_memory_in_use := False\<rparr>)
   \<and> (rounded_sum sizes \<noteq> 0 \<and> fst (device_allocator grow (rounded_sum sizes) h) = 0 \<longrightarrow>
      device_malloc_dtor (snd (device_malloc (device_allocator grow) h sizes)) =
        h\<lparr>device_memory_in_use := False\<rparr>)
   \<and> device_memory (device_malloc_dtor h') = device_memory h'
   \<and> device_memory_size (device_malloc_dtor h') = device_memory_size h'
   \<and> device_memory_is_rocblas_managed (device_malloc_dtor h')
       = device_memory_is_rocblas_managed h'
   \<and> \<not> device_memory_in_use (device_malloc_dtor h')"
proof -
  have a: "fst (device_malloc alloc h sizes) =
        \<lparr>success = False, total_size = rounded_sum sizes,
         pointers = replicate (length sizes) 0\<rparr>
      \<and> device_malloc_dtor (snd (device_malloc alloc h sizes)) =
          (snd (alloc (rounded_sum sizes) h))\<lparr>device_memory_in_use := False\<rparr>"
    if "rounded_sum sizes \<noteq> 0" and "fst (alloc (rounded_sum sizes) h) = 0"
    for alloc :: allocator
    using that by (simp add: device_malloc_failed device_malloc_dtor_def)
  have b: "device_malloc_dtor (snd (device_malloc (device_allocator grow) h sizes)) =
        h\<lparr>device_memory_in_use := False\<rparr>"
    if "rounded_sum sizes \<noteq> 0" and "fst (device_allocator grow (rounded_sum sizes) h) = 0"
    using that a [of "device_allocator grow"] by (simp add: device_allocator_failed)
  show ?thesis using a [of alloc] b by (simp add: device_malloc_dtor_def)
qed

theorem failed_allocation_leaves_handle_witness:
  "rounded_sum [100] \<noteq> 0
   \<and> fst (device_allocator no_growth (rounded_sum [100])
            (initial_handle\<lparr>device_memory_size := 64, device_memory := 4096\<rparr>)) = 0
   \<and> fst (device_malloc (device_allocator no_growth)
            (initial_handle\<lparr>device_memory_size := 64, device_memory := 4096\<rparr>) [100]) =
       \<lparr>success = False, total_size = 128, pointers = [0]\<rparr>
   \<and> device_malloc_dtor (snd (device_malloc (device_allocator no_growth)
            (initial_handle\<lparr>device_memory_size := 64, device_memory := 4096\<rparr>) [100])) =
       initial_handle\<lparr>device_memory_size := 64, device_memory := 4096\<rparr>"
proof -
  let ?h = "initial_handle\<lparr>device_memory_size := 64, device_memory := 4096\<rparr>"
  have r: "rounded_sum [100] = 128" by (rule rounded_sum_examples)
  have n: "rounded_sum [100] \<noteq> 0" by (simp add: r)
  have f: "fst (device_allocator no_growth (rounded_sum [100]) ?h) = 0"
    by (simp add: r device_allocator_def initial_handle_def)
  have i: "?h\<lparr>device_memory_in_use := False\<rparr> = ?h" by (simp add: initial_handle_def)
  note t = failed_allocation_leaves_handle [of "[100]" "device_allocator no_growth" ?h
      no_growth ?h]
  have a: "fst (device_malloc (device_allocator no_growth) ?h [100]) =
      \<lparr>success = False, total_size = rounded_sum [100], pointers = replicate (length [100::size_t]) 0\<rparr>"
    using t n f by blast
  have b: "device_malloc_dtor (snd (device_malloc (device_allocator no_growth) ?h [100])) =
      ?h\<lparr>device_memory_in_use := False\<rparr>"
    using t n f by blast
  show ?thesis using n f a b by (simp add: r i)
qed

section \<open>The GSU workspace\<close>

lemma rounded_sum_single: "rounded_sum [s] = roundup_device_memory_size s"
  by (simp add: rounded_sum_def)

lemma gsu_malloc_trivial:
  assumes "roundup_device_memory_size (device_memory_size h) = 0"
  shows "gsu_malloc alloc h =
           (\<lparr>success = True, total_size = 0, pointers = [0]\<rparr>,
            h\<lparr>gsu_workspace_size := 0, gsu_workspace := 0\<rparr>)"
  using assms
  by (simp add: gsu_malloc_def allocate_pointers_trivial rounded_sum_single)

lemma gsu_malloc_served:
  assumes "roundup_device_memory_size (device_memory_size h) \<noteq> 0"
    and "fst (alloc (roundup_device_memory_size (device_memory_size h)) h) \<noteq> 0"
  shows "gsu_malloc alloc h =
           (\<lparr>success = True, total_size = roundup_device_memory_size (device_memory_size h),
             pointers = [fst (alloc (roundup_device_memory_size (device_memory_size h)) h)]\<rparr>,
            (snd (alloc (roundup_device_memory_size (device_memory_size h)) h))
              \<lparr>gsu_workspace_size := roundup_device_memory_size (device_memory_size h),
               gsu_workspace := fst (alloc (roundup_device_memory_size (device_memory_size h)) h)\<rparr>)"
proof -
  have n: "rounded_sum [device_memory_size h] \<noteq> 0"
    using assms(1) by (simp add: rounded_sum_single)
  have f: "fst (alloc (rounded_sum [device_memory_size h]) h) \<noteq> 0"
    using assms(2) by (simp add: rounded_sum_single)
  have o: "offset_of [device_memory_size h] 0 = 0"
    by (simp add: offset_of_def rounded_sum_def)
  have "allocate_pointers 1 alloc h [device_memory_size h] =
      (\<lparr>success = True, total_size = rounded_sum [device_memory_size h],
        pointers = array_of 1
          (map (\<lambda>i. if [device_memory_size h] ! i = 0 then 0
                     else fst (alloc (rounded_sum [device_memory_size h]) h)
                          + offset_of [device_memory_size h] i)
               [0..<length [device_memory_size h]])\<rparr>,
       snd (alloc (rounded_sum [device_memory_size h]) h))"
    using n f by (rule allocate_pointers_served)
  moreover have "device_memory_size h \<noteq> 0" using assms(1) roundup_zero by auto
  ultimately show ?thesis
    by (simp add: gsu_malloc_def rounded_sum_single o array_of_def)
qed

lemma gsu_malloc_failed:
  assumes "roundup_device_memory_size (device_memory_size h) \<noteq> 0"
    and "fst (alloc (roundup_device_memory_size (device_memory_size h)) h) = 0"
  shows "gsu_malloc alloc h =
           (\<lparr>success = False, total_size = roundup_device_memory_size (device_memory_size h),
             pointers = [0]\<rparr>,
            (snd (alloc (roundup_device_memory_size (device_memory_size h)) h))
              \<lparr>gsu_workspace_size := 0, gsu_workspace := 0\<rparr>)"
proof -
  have n: "rounded_sum [device_memory_size h] \<noteq> 0"
    using assms(1) by (simp add: rounded_sum_single)
  have f: "fst (alloc (rounded_sum [device_memory_size h]) h) = 0"
    using assms(2) by (simp add: rounded_sum_single)
  have "allocate_pointers 1 alloc h [device_memory_size h] =
      (\<lparr>success = False, total_size = rounded_sum [device_memory_size h],
        pointers = replicate 1 0\<rparr>,
       snd (alloc (rounded_sum [device_memory_size h]) h))"
    using n f by (rule allocate_pointers_failed)
  then show ?thesis by (simp add: gsu_malloc_def rounded_sum_single)
qed

text \<open>
  Claim C9. Constructing the GSU allocation takes no size from the caller: the single
  request is the handle's block size \<open>device_memory_size\<close>, rounded up to the chunk
  size like every request. When that is 0 the object succeeds trivially and both
  workspace fields are null and 0. Otherwise the allocator is asked for the rounded block
  size: when it yields a block, \<open>gsu_workspace\<close> is the block's address and
  \<open>gsu_workspace_size\<close> is the allocated total; when it yields none, the fields are
  null and 0. The destructor resets both fields to null and 0 and clears the in-use guard.
\<close>

theorem gsu_malloc_workspace:
  "(roundup_device_memory_size (device_memory_size h) = 0 \<longrightarrow>
      gsu_malloc alloc h =
        (\<lparr>success = True, total_size = 0, pointers = [0]\<rparr>,
         h\<lparr>gsu_workspace_size := 0, gsu_workspace := 0\<rparr>))
   \<and> (roundup_device_memory_size (device_memory_size h) \<noteq> 0
       \<and> fst (alloc (roundup_device_memory_size (device_memory_size h)) h) \<noteq> 0 \<longrightarrow>
      gsu_malloc alloc h =
        (\<lparr>success = True, total_size = roundup_device_memory_size (device_memory_size h),
          pointers = [fst (alloc (roundup_device_memory_size (device_memory_size h)) h)]\<rparr>,
         (snd (alloc (roundup_device_memory_size (device_memory_size h)) h))
           \<lparr>gsu_workspace_size := roundup_device_memory_size (device_memory_size h),
            gsu_workspace := fst (alloc (roundup_device_memory_size (device_memory_size h)) h)\<rparr>))
   \<and> (roundup_device_memory_size (device_memory_size h) \<noteq> 0
       \<and> fst (alloc (roundup_device_memory_size (device_memory_size h)) h) = 0 \<longrightarrow>
      gsu_malloc alloc h =
        (\<lparr>success = False, total_size = roundup_device_memory_size (device_memory_size h),
          pointers = [0]\<rparr>,
         (snd (alloc (roundup_device_memory_size (device_memory_size h)) h))
           \<lparr>gsu_workspace_size := 0, gsu_workspace := 0\<rparr>))
   \<and> gsu_malloc_dtor h' =
       h'\<lparr>gsu_workspace_size := 0, gsu_workspace := 0, device_memory_in_use := False\<rparr>"
proof -
  have d: "gsu_malloc_dtor h' =
       h'\<lparr>gsu_workspace_size := 0, gsu_workspace := 0, device_memory_in_use := False\<rparr>"
    by (simp add: gsu_malloc_dtor_def device_malloc_dtor_def)
  show ?thesis
    using d gsu_malloc_trivial gsu_malloc_served gsu_malloc_failed by blast
qed

theorem gsu_malloc_workspace_witness:
  "roundup_device_memory_size
     (device_memory_size (initial_handle\<lparr>device_memory_size := 4096, device_memory := 65536\<rparr>))
     \<noteq> 0
   \<and> gsu_malloc (device_allocator no_growth)
        (initial_handle\<lparr>device_memory_size := 4096, device_memory := 65536\<rparr>) =
       (\<lparr>success = True, total_size = 4096, pointers = [65536]\<rparr>,
        initial_handle\<lparr>device_memory_size := 4096, device_memory := 65536,
          device_memory_in_use := True, gsu_workspace_size := 4096, gsu_workspace := 65536\<rparr>)
   \<and> roundup_device_memory_size
       (device_memory_size (initial_handle\<lparr>device_memory_size := 100, device_memory := 65536\<rparr>))
     \<noteq> 0
   \<and> gsu_malloc (device_allocator no_growth)
        (initial_handle\<lparr>device_memory_size := 100, device_memory := 65536\<rparr>) =
       (\<lparr>success = False, total_size = 128, pointers = [0]\<rparr>,
        initial_handle\<lparr>device_memory_size := 100, device_memory := 65536\<rparr>)
   \<and> roundup_device_memory_size (device_memory_size initial_handle) = 0
   \<and> gsu_malloc (device_allocator no_growth) initial_handle =
       (\<lparr>success = True, total_size = 0, pointers = [0]\<rparr>, initial_handle)"
proof -
  let ?h = "initial_handle\<lparr>device_memory_size := 4096, device_memory := 65536\<rparr>"
  let ?k = "initial_handle\<lparr>device_memory_size := 100, device_memory := 65536\<rparr>"
  have r: "roundup_device_memory_size 4096 = 4096" "roundup_device_memory_size 100 = 128"
    by (simp_all add: roundup_device_memory_size_def MIN_CHUNK_SIZE_def)
  have s: "device_memory_size ?h = 4096" "device_memory_size ?k = 100"
    "device_memory_size initial_handle = 0"
    by (simp_all add: initial_handle_def)
  have ah: "device_allocator no_growth 4096 ?h = (65536, ?h\<lparr>device_memory_in_use := True\<rparr>)"
    by (simp add: device_allocator_def s)
  have ak: "device_allocator no_growth 128 ?k = (0, ?k)"
    by (simp add: device_allocator_def s initial_handle_def)
  have z: "initial_handle\<lparr>gsu_workspace_size := 0, gsu_workspace := 0\<rparr> = initial_handle"
    "?k\<lparr>gsu_workspace_size := 0, gsu_workspace := 0\<rparr> = ?k"
    by (simp_all add: initial_handle_def)
  have 1: "gsu_malloc (device_allocator no_growth) ?h =
       (\<lparr>success = True, total_size = 4096, pointers = [65536]\<rparr>,
        ?h\<lparr>device_memory_in_use := True, gsu_workspace_size := 4096, gsu_workspace := 65536\<rparr>)"
    using gsu_malloc_workspace [of ?h "device_allocator no_growth"]
    by (simp only: s r ah fst_conv snd_conv) simp
  have 2: "gsu_malloc (device_allocator no_growth) ?k =
       (\<lparr>success = False, total_size = 128, pointers = [0]\<rparr>, ?k)"
    using gsu_malloc_workspace [of ?k "device_allocator no_growth"]
    by (simp only: s r ak fst_conv snd_conv z) simp
  have 3: "gsu_malloc (device_allocator no_growth) initial_handle =
       (\<lparr>success = True, total_size = 0, pointers = [0]\<rparr>, initial_handle)"
    using gsu_malloc_workspace [of initial_handle "device_allocator no_growth"]
    by (simp only: s roundup_zero z)
  from 1 2 3 show ?thesis by (simp add: s r roundup_zero)
qed

section \<open>Scoped overrides\<close>




section \<open>Order of the checks in the routine entry points\<close>

lemma int_add_in_range:
  assumes "int_range (sint a + sint b)"
  shows "int_add a b = Some (a + b)" and "sint (a + b) = sint a + sint b"
proof -
  show "int_add a b = Some (a + b)" using assms by (simp add: int_add_def)
  have "- (2 ^ 31) \<le> sint a + sint b" "sint a + sint b < 2 ^ 31"
    using assms by (simp_all add: int_range_def)
  then have "signed_take_bit 31 (sint a + sint b) = sint a + sint b"
    by (rule signed_take_bit_int_eq_self)
  then show "sint (a + b) = sint a + sint b" by (simp add: sint_word_add)
qed

lemma int_add_overflow: "\<not> int_range (sint a + sint b) \<Longrightarrow> int_add a b = None"
  by (simp add: int_add_def)

lemma band_width:
  assumes "int_range (sint ku + sint kl)" and "int_range (sint ku + sint kl + 1)"
  shows "int_add ku kl = Some (ku + kl)" and "int_add (ku + kl) 1 = Some (ku + kl + 1)"
    and "sint (ku + kl + 1 :: rocblas_int) = sint ku + sint kl + 1"
proof -
  have s: "sint (ku + kl) = sint ku + sint kl" using assms(1) by (rule int_add_in_range)
  have r: "int_range (sint (ku + kl) + sint (1 :: rocblas_int))" using assms(2) by (simp add: s)
  show "int_add ku kl = Some (ku + kl)" using assms(1) by (rule int_add_in_range)
  show "int_add (ku + kl) 1 = Some (ku + kl + 1)" using r by (rule int_add_in_range)
  have "sint (ku + kl + 1) = sint (ku + kl) + sint (1 :: rocblas_int)"
    using r by (rule int_add_in_range)
  then show "sint (ku + kl + 1 :: rocblas_int) = sint ku + sint kl + 1" by (simp add: s)
qed

lemma band_width_overflow:
  assumes "\<not> (int_range (sint ku + sint kl) \<and> int_range (sint ku + sint kl + 1))"
  shows "(case int_add ku kl of None \<Rightarrow> None | Some ku_kl \<Rightarrow>
            (case int_add ku_kl 1 of None \<Rightarrow> None | Some band \<Rightarrow> f band)) = None"
proof (cases "int_range (sint ku + sint kl)")
  case False
  then show ?thesis by (simp add: int_add_overflow)
next
  case True
  have s: "sint (ku + kl) = sint ku + sint kl" using True by (rule int_add_in_range)
  have "\<not> int_range (sint (ku + kl) + sint (1 :: rocblas_int))" using assms True by (simp add: s)
  then have "int_add (ku + kl) 1 = None" by (rule int_add_overflow)
  then show ?thesis using True by (simp add: int_add_in_range)
qed

text \<open>
  Claim C7, as amended. \<open>rocblas_her_impl\<close> (behind \<open>rocblas_cher\<close> and
  \<open>rocblas_zher\<close>) and \<open>rocblas_gbmv_batched_impl\<close> (behind the four
  \<open>rocblas_*gbmv_batched\<close>) check in this order. A null handle gives "invalid handle"
  with no effect at all. Otherwise a handle in size-query mode gives "size unchanged" with
  no effect, whatever the other arguments are. Otherwise, after logging, \<open>her\<close> answers
  an invalid \<open>uplo\<close> with "invalid value"; \<open>gbmv_batched\<close> checks no argument value,
  and \<open>transA\<close> plays no part in any of its checks. Then invalid sizes give "invalid
  size", then a degenerate size (\<open>n = 0\<close>; \<open>m = 0\<close>, \<open>n = 0\<close> or
  \<open>batch_count = 0\<close>) gives success whatever the pointers are, then a null pointer gives
  "invalid pointer", and only then the kernel template is called. In \<open>gbmv_batched\<close>
  a negative \<open>m\<close> or \<open>n\<close> gives "invalid size" at once; otherwise the size check
  computes \<open>ku + kl + 1\<close>, and the order holds when that sum does not overflow
  \<open>int\<close>; when it does, the behaviour is undefined and the source fixes no result
  (\<open>None\<close>).
\<close>

theorem entry_point_check_order:
  "(rocblas_her_impl tmpl None uplo n alpha x incx A lda = (rocblas_status_invalid_handle, [])
    \<and> (is_device_memory_size_query h \<longrightarrow>
         rocblas_her_impl tmpl (Some h) uplo n alpha x incx A lda
           = (rocblas_status_size_unchanged, []))
    \<and> (\<not> is_device_memory_size_query h \<and> uplo \<noteq> rocblas_fill_lower
         \<and> uplo \<noteq> rocblas_fill_upper \<longrightarrow>
         rocblas_her_impl tmpl (Some h) uplo n alpha x incx A lda
           = (rocblas_status_invalid_value, her_logging h))
    \<and> (\<not> is_device_memory_size_query h \<and> (uplo = rocblas_fill_lower \<or> uplo = rocblas_fill_upper)
         \<and> (sint n < 0 \<or> incx = 0 \<or> sint lda < sint n \<or> sint lda < 1) \<longrightarrow>
         rocblas_her_impl tmpl (Some h) uplo n alpha x incx A lda
           = (rocblas_status_invalid_size, her_logging h))
    \<and> (\<not> is_device_memory_size_query h \<and> (uplo = rocblas_fill_lower \<or> uplo = rocblas_fill_upper)
         \<and> \<not> (sint n < 0 \<or> incx = 0 \<or> sint lda < sint n \<or> sint lda < 1) \<and> n = 0 \<longrightarrow>
         rocblas_her_impl tmpl (Some h) uplo n alpha x incx A lda
           = (rocblas_status_success, her_logging h))
    \<and> (\<not> is_device_memory_size_query h \<and> (uplo = rocblas_fill_lower \<or> uplo = rocblas_fill_upper)
         \<and> \<not> (sint n < 0 \<or> incx = 0 \<or> sint lda < sint n \<or> sint lda < 1) \<and> n \<noteq> 0
         \<and> (x = 0 \<or> A = 0 \<or> alpha = 0) \<longrightarrow>
         rocblas_her_impl tmpl (Some h) uplo n alpha x incx A lda
           = (rocblas_status_invalid_pointer, her_logging h))
    \<and> (\<not> is_device_memory_size_query h \<and> (uplo = rocblas_fill_lower \<or> uplo = rocblas_fill_upper)
         \<and> \<not> (sint n < 0 \<or> incx = 0 \<or> sint lda < sint n \<or> sint lda < 1) \<and> n \<noteq> 0
         \<and> \<not> (x = 0 \<or> A = 0 \<or> alpha = 0) \<longrightarrow>
         rocblas_her_impl tmpl (Some h) uplo n alpha x incx A lda
           = (tmpl h uplo n alpha x incx A lda, her_logging h @ [Dispatch])))
   \<and> (rocblas_gbmv_batched_impl numerics gtmpl None transA m n kl ku alpha A lda x incx beta y incy
        batch_count = Some (rocblas_status_invalid_handle, [])
    \<and> (is_device_memory_size_query h \<longrightarrow>
         rocblas_gbmv_batched_impl numerics gtmpl (Some h) transA m n kl ku alpha A lda x incx beta
           y incy batch_count = Some (rocblas_status_size_unchanged, []))
    \<and> (\<not> is_device_memory_size_query h \<and> (sint m < 0 \<or> sint n < 0) \<longrightarrow>
         rocblas_gbmv_batched_impl numerics gtmpl (Some h) transA m n kl ku alpha A lda x incx beta
           y incy batch_count = Some (rocblas_status_invalid_size, gbmv_logging h))
    \<and> (\<not> is_device_memory_size_query h \<and> 0 \<le> sint m \<and> 0 \<le> sint n
         \<and> \<not> (int_range (sint ku + sint kl) \<and> int_range (sint ku + sint kl + 1)) \<longrightarrow>
         rocblas_gbmv_batched_impl numerics gtmpl (Some h) transA m n kl ku alpha A lda x incx beta
           y incy batch_count = None)
    \<and> (\<not> is_device_memory_size_query h \<and> int_range (sint ku + sint kl) \<and> int_range (sint ku + sint kl + 1)
         \<and> (sint m < 0 \<or> sint n < 0 \<or> sint lda < sint ku + sint kl + 1 \<or> incx = 0 \<or> incy = 0
              \<or> sint kl < 0 \<or> sint ku < 0 \<or> sint batch_count < 0) \<longrightarrow>
         rocblas_gbmv_batched_impl numerics gtmpl (Some h) transA m n kl ku alpha A lda x incx beta
           y incy batch_count = Some (rocblas_status_invalid_size, gbmv_logging h))
    \<and> (\<not> is_device_memory_size_query h \<and> int_range (sint ku + sint kl) \<and> int_range (sint ku + sint kl + 1)
         \<and> \<not> (sint m < 0 \<or> sint n < 0 \<or> sint lda < sint ku + sint kl + 1 \<or> incx = 0 \<or> incy = 0
              \<or> sint kl < 0 \<or> sint ku < 0 \<or> sint batch_count < 0)
         \<and> (m = 0 \<or> n = 0 \<or> batch_count = 0) \<longrightarrow>
         rocblas_gbmv_batched_impl numerics gtmpl (Some h) transA m n kl ku alpha A lda x incx beta
           y incy batch_count = Some (rocblas_status_success, gbmv_logging h))
    \<and> (\<not> is_device_memory_size_query h \<and> int_range (sint ku + sint kl) \<and> int_range (sint ku + sint kl + 1)
         \<and> \<not> (sint m < 0 \<or> sint n < 0 \<or> sint lda < sint ku + sint kl + 1 \<or> incx = 0 \<or> incy = 0
              \<or> sint kl < 0 \<or> sint ku < 0 \<or> sint batch_count < 0)
         \<and> \<not> (m = 0 \<or> n = 0 \<or> batch_count = 0)
         \<and> (A = 0 \<or> x = 0 \<or> y = 0 \<or> alpha = 0 \<or> beta = 0) \<longrightarrow>
         rocblas_gbmv_batched_impl numerics gtmpl (Some h) transA m n kl ku alpha A lda x incx beta
           y incy batch_count = Some (rocblas_status_invalid_pointer, gbmv_logging h))
    \<and> (\<not> is_device_memory_size_query h \<and> int_range (sint ku + sint kl) \<and> int_range (sint ku + sint kl + 1)
         \<and> \<not> (sint m < 0 \<or> sint n < 0 \<or> sint lda < sint ku + sint kl + 1 \<or> incx = 0 \<or> incy = 0
              \<or> sint kl < 0 \<or> sint ku < 0 \<or> sint batch_count < 0)
         \<and> \<not> (m = 0 \<or> n = 0 \<or> batch_count = 0)
         \<and> \<not> (A = 0 \<or> x = 0 \<or> y = 0 \<or> alpha = 0 \<or> beta = 0) \<and> check_numerics h = 0 \<longrightarrow>
         rocblas_gbmv_batched_impl numerics gtmpl (Some h) transA m n kl ku alpha A lda x incx beta
           y incy batch_count
           = Some (gtmpl h transA m n kl ku alpha A lda x incx beta y incy batch_count,
                   gbmv_logging h @ [Dispatch])))"
  by (rule conjI)
     (auto simp add: rocblas_her_impl_def rocblas_gbmv_batched_impl_def gbmv_compute_def Let_def
        band_width band_width_overflow not_less)

theorem entry_point_check_order_witness:
  "is_device_memory_size_query (rocblas_start_device_memory_size_query initial_handle)
   \<and> \<not> is_device_memory_size_query initial_handle
   \<and> rocblas_her_impl her_template_ok (Some (rocblas_start_device_memory_size_query initial_handle)) rocblas_fill_full (-1) 0 0 0 0 0
       = (rocblas_status_size_unchanged, [])
   \<and> rocblas_her_impl her_template_ok (Some initial_handle) rocblas_fill_full (-1) 0 0 0 0 0
       = (rocblas_status_invalid_value, [])
   \<and> rocblas_her_impl her_template_ok (Some initial_handle) rocblas_fill_other 2 4096 8192 1 12288 2
       = (rocblas_status_invalid_value, [])
   \<and> rocblas_her_impl her_template_ok (Some initial_handle) rocblas_fill_upper (-1) 0 0 0 0 0
       = (rocblas_status_invalid_size, [])
   \<and> rocblas_her_impl her_template_ok (Some initial_handle) rocblas_fill_upper 0 0 0 1 0 1
       = (rocblas_status_success, [])
   \<and> rocblas_her_impl her_template_ok (Some initial_handle) rocblas_fill_lower 2 0 0 1 0 2
       = (rocblas_status_invalid_pointer, [])
   \<and> rocblas_her_impl her_template_ok (Some initial_handle) rocblas_fill_lower 2 4096 8192 1 12288 2
       = (rocblas_status_success, [Dispatch])
   \<and> rocblas_gbmv_batched_impl gbmv_numerics_ok gbmv_template_ok (Some (rocblas_start_device_memory_size_query initial_handle))
         rocblas_operation_none (-1) (-1) (-1) (-1) 0 0 0 0 0 0 0 0 (-1)
       = Some (rocblas_status_size_unchanged, [])
   \<and> rocblas_gbmv_batched_impl gbmv_numerics_ok gbmv_template_ok (Some initial_handle)
         rocblas_operation_none (-1) 3 1 1 0 0 3 0 1 0 0 1 2
       = Some (rocblas_status_invalid_size, [])
   \<and> rocblas_gbmv_batched_impl gbmv_numerics_ok gbmv_template_ok (Some initial_handle)
         rocblas_operation_none 3 3 1 1 0 0 2 0 1 0 0 1 2
       = Some (rocblas_status_invalid_size, [])
   \<and> rocblas_gbmv_batched_impl gbmv_numerics_ok gbmv_template_ok (Some initial_handle)
         rocblas_operation_none 3 3 0 2147483647 4096 8192 3 12288 1 16384 20480 1 2
       = None
   \<and> rocblas_gbmv_batched_impl gbmv_numerics_ok gbmv_template_ok (Some initial_handle)
         rocblas_operation_none 3 3 1 1 0 0 3 0 1 0 0 1 0
       = Some (rocblas_status_success, [])
   \<and> rocblas_gbmv_batched_impl gbmv_numerics_ok gbmv_template_ok (Some initial_handle)
         rocblas_operation_none 3 3 1 1 0 0 3 0 1 0 0 1 2
       = Some (rocblas_status_invalid_pointer, [])
   \<and> rocblas_gbmv_batched_impl gbmv_numerics_ok gbmv_template_ok (Some initial_handle)
         rocblas_operation_other 3 3 1 1 4096 8192 3 12288 1 16384 20480 1 2
       = Some (rocblas_status_success, [Dispatch])"
proof -
  let ?q = "rocblas_start_device_memory_size_query initial_handle"
  have q: "is_device_memory_size_query ?q"
    by (simp add: is_device_memory_size_query_def rocblas_start_device_memory_size_query_def)
  have i: "\<not> is_device_memory_size_query initial_handle"
    by (simp add: is_device_memory_size_query_def initial_handle_def)
  have l: "her_logging initial_handle = []" "gbmv_logging initial_handle = []"
    "check_numerics initial_handle = 0"
    by (simp_all add: her_logging_def gbmv_logging_def initial_handle_def)
  have t: "her_template_ok initial_handle rocblas_fill_lower 2 4096 8192 1 12288 2
       = rocblas_status_success"
    "gbmv_template_ok initial_handle rocblas_operation_other 3 3 1 1 4096 8192 3 12288 1 16384
       20480 1 2 = rocblas_status_success"
    by (simp_all add: her_template_ok_def gbmv_template_ok_def)
  have c1: "rocblas_her_impl her_template_ok (Some (rocblas_start_device_memory_size_query initial_handle)) rocblas_fill_full (-1) 0 0 0 0 0
       = (rocblas_status_size_unchanged, [])"
    using q entry_point_check_order [where h = ?q and tmpl = her_template_ok and uplo = rocblas_fill_full and n = "-1" and alpha = 0 and x = 0 and incx = 0 and A = 0 and lda = 0]
    by (simp add: l t)
  have c2: "rocblas_her_impl her_template_ok (Some initial_handle) rocblas_fill_full (-1) 0 0 0 0 0
       = (rocblas_status_invalid_value, [])"
    using i entry_point_check_order [where h = initial_handle and tmpl = her_template_ok and uplo = rocblas_fill_full and n = "-1" and alpha = 0 and x = 0 and incx = 0 and A = 0 and lda = 0]
    by (simp add: l t)
  have c3: "rocblas_her_impl her_template_ok (Some initial_handle) rocblas_fill_other 2 4096 8192 1 12288 2
       = (rocblas_status_invalid_value, [])"
    using i entry_point_check_order [where h = initial_handle and tmpl = her_template_ok and uplo = rocblas_fill_other and n = 2 and alpha = 4096 and x = 8192 and incx = 1 and A = 12288 and lda = 2]
    by (simp add: l t)
  have c4: "rocblas_her_impl her_template_ok (Some initial_handle) rocblas_fill_upper (-1) 0 0 0 0 0
       = (rocblas_status_invalid_size, [])"
    using i entry_point_check_order [where h = initial_handle and tmpl = her_template_ok and uplo = rocblas_fill_upper and n = "-1" and alpha = 0 and x = 0 and incx = 0 and A = 0 and lda = 0]
    by (simp add: l t)
  have c5: "rocblas_her_impl her_template_ok (Some initial_handle) rocblas_fill_upper 0 0 0 1 0 1
       = (rocblas_status_success, [])"
    using i entry_point_check_order [where h = initial_handle and tmpl = her_template_ok and uplo = rocblas_fill_upper and n = 0 and alpha = 0 and x = 0 and incx = 1 and A = 0 and lda = 1]
    by (simp add: l t)
  have c6: "rocblas_her_impl her_template_ok (Some initial_handle) rocblas_fill_lower 2 0 0 1 0 2
       = (rocblas_status_invalid_pointer, [])"
    using i entry_point_check_order [where h = initial_handle and tmpl = her_template_ok and uplo = rocblas_fill_lower and n = 2 and alpha = 0 and x = 0 and incx = 1 and A = 0 and lda = 2]
    by (simp add: l t)
  have c7: "rocblas_her_impl her_template_ok (Some initial_handle) rocblas_fill_lower 2 4096 8192 1 12288 2
       = (rocblas_status_success, [Dispatch])"
    using i entry_point_check_order [where h = initial_handle and tmpl = her_template_ok and uplo = rocblas_fill_lower and n = 2 and alpha = 4096 and x = 8192 and incx = 1 and A = 12288 and lda = 2]
    by (simp add: l t)
  have c8: "rocblas_gbmv_batched_impl gbmv_numerics_ok gbmv_template_ok (Some (rocblas_start_device_memory_size_query initial_handle))
         rocblas_operation_none (-1) (-1) (-1) (-1) 0 0 0 0 0 0 0 0 (-1)
       = Some (rocblas_status_size_unchanged, [])"
    using q entry_point_check_order [where h = ?q and numerics = gbmv_numerics_ok and gtmpl = gbmv_template_ok
        and transA = rocblas_operation_none and m = "-1" and n = "-1" and kl = "-1" and ku = "-1" and alpha = 0 and A = 0 and lda = 0 and x = 0 and incx = 0 and beta = 0 and y = 0 and incy = 0 and batch_count = "-1"]
    by (simp add: l t int_range_def)
  have c9: "rocblas_gbmv_batched_impl gbmv_numerics_ok gbmv_template_ok (Some initial_handle)
         rocblas_operation_none (-1) 3 1 1 0 0 3 0 1 0 0 1 2
       = Some (rocblas_status_invalid_size, [])"
    using i entry_point_check_order [where h = initial_handle and numerics = gbmv_numerics_ok and gtmpl = gbmv_template_ok
        and transA = rocblas_operation_none and m = "-1" and n = 3 and kl = 1 and ku = 1 and alpha = 0 and A = 0 and lda = 3 and x = 0 and incx = 1 and beta = 0 and y = 0 and incy = 1 and batch_count = 2]
    by (simp add: l t int_range_def)
  have c10: "rocblas_gbmv_batched_impl gbmv_numerics_ok gbmv_template_ok (Some initial_handle)
         rocblas_operation_none 3 3 1 1 0 0 2 0 1 0 0 1 2
       = Some (rocblas_status_invalid_size, [])"
    using i entry_point_check_order [where h = initial_handle and numerics = gbmv_numerics_ok and gtmpl = gbmv_template_ok
        and transA = rocblas_operation_none and m = 3 and n = 3 and kl = 1 and ku = 1 and alpha = 0 and A = 0 and lda = 2 and x = 0 and incx = 1 and beta = 0 and y = 0 and incy = 1 and batch_count = 2]
    by (simp add: l t int_range_def)
  have c11: "rocblas_gbmv_batched_impl gbmv_numerics_ok gbmv_template_ok (Some initial_handle)
         rocblas_operation_none 3 3 0 2147483647 4096 8192 3 12288 1 16384 20480 1 2
       = None"
    using i entry_point_check_order [where h = initial_handle and numerics = gbmv_numerics_ok and gtmpl = gbmv_template_ok
        and transA = rocblas_operation_none and m = 3 and n = 3 and kl = 0 and ku = 2147483647 and alpha = 4096 and A = 8192 and lda = 3 and x = 12288 and incx = 1 and beta = 16384 and y = 20480 and incy = 1 and batch_count = 2]
    by (simp add: l t int_range_def)
  have c12: "rocblas_gbmv_batched_impl gbmv_numerics_ok gbmv_template_ok (Some initial_handle)
         rocblas_operation_none 3 3 1 1 0 0 3 0 1 0 0 1 0
       = Some (rocblas_status_success, [])"
    using i entry_point_check_order [where h = initial_handle and numerics = gbmv_numerics_ok and gtmpl = gbmv_template_ok
        and transA = rocblas_operation_none and m = 3 and n = 3 and kl = 1 and ku = 1 and alpha = 0 and A = 0 and lda = 3 and x = 0 and incx = 1 and beta = 0 and y = 0 and incy = 1 and batch_count = 0]
    by (simp add: l t int_range_def)
  have c13: "rocblas_gbmv_batched_impl gbmv_numerics_ok gbmv_template_ok (Some initial_handle)
         rocblas_operation_none 3 3 1 1 0 0 3 0 1 0 0 1 2
       = Some (rocblas_status_invalid_pointer, [])"
    using i entry_point_check_order [where h = initial_handle and numerics = gbmv_numerics_ok and gtmpl = gbmv_template_ok
        and transA = rocblas_operation_none and m = 3 and n = 3 and kl = 1 and ku = 1 and alpha = 0 and A = 0 and lda = 3 and x = 0 and incx = 1 and beta = 0 and y = 0 and incy = 1 and batch_count = 2]
    by (simp add: l t int_range_def)
  have c14: "rocblas_gbmv_batched_impl gbmv_numerics_ok gbmv_template_ok (Some initial_handle)
         rocblas_operation_other 3 3 1 1 4096 8192 3 12288 1 16384 20480 1 2
       = Some (rocblas_status_success, [Dispatch])"
    using i entry_point_check_order [where h = initial_handle and numerics = gbmv_numerics_ok and gtmpl = gbmv_template_ok
        and transA = rocblas_operation_other and m = 3 and n = 3 and kl = 1 and ku = 1 and alpha = 4096 and A = 8192 and lda = 3 and x = 12288 and incx = 1 and beta = 16384 and y = 20480 and incy = 1 and batch_count = 2]
    by (simp add: l t int_range_def)
  from q i c1 c2 c3 c4 c5 c6 c7 c8 c9 c10 c11 c12 c13 c14 show ?thesis by simp
qed

theorem gbmv_value_check_counterexample:
  "rocblas_gbmv_batched_impl gbmv_numerics_ok gbmv_template_ok (Some initial_handle)
     rocblas_operation_other (-1) 3 1 1 0 0 3 0 1 0 0 1 2
     = Some (rocblas_status_invalid_size, [])
   \<and> rocblas_gbmv_batched_impl gbmv_numerics_ok gbmv_template_ok (Some initial_handle)
     rocblas_operation_other 3 3 1 1 4096 8192 3 12288 1 16384 20480 1 2
     = Some (rocblas_status_success, [Dispatch])
   \<and> rocblas_gbmv_batched_impl gbmv_numerics_ok gbmv_template_ok (Some initial_handle)
     rocblas_operation_none 3 3 0 2147483647 4096 8192 3 12288 1 16384 20480 1 2
     = None"
  by (simp add: rocblas_gbmv_batched_impl_def gbmv_compute_def is_device_memory_size_query_def
      gbmv_logging_def initial_handle_def gbmv_template_ok_def gbmv_numerics_ok_def
      int_add_def int_range_def)

end
